theory Spec2Isabelle
  imports Main "HOL-Library.Sublist"
begin

section \<open>JavaScript values\<close>

text \<open>
  The client handles untyped JSON: what \<^verbatim>\<open>JSON.parse\<close> returns is tested for truthiness,
  read by property name and interpolated into command lines. \<open>JNull\<close> is JavaScript's
  \<^verbatim>\<open>null\<close>; \<^verbatim>\<open>undefined\<close> (an absent property) is \<open>None\<close> of an option type.
  Numbers are the integers (epoch milliseconds, lifetimes in seconds, status codes);
  fractions, \<^verbatim>\<open>NaN\<close> and infinities of IEEE doubles are outside the model, \<^verbatim>\<open>NaN\<close> as the
  result of a failed conversion being \<open>None\<close> of \<open>int option\<close>.
\<close>

datatype json =
    JNull
  | JBool bool
  | JNum int
  | JStr string
  | JArr "json list"
  | JObj "(string \<times> json) list"

text \<open>\<^verbatim>\<open>if (v)\<close>, \<^verbatim>\<open>!v\<close>, \<^verbatim>\<open>a || b\<close>, \<^verbatim>\<open>a && b\<close> test this.\<close>

fun truthy :: "json \<Rightarrow> bool" where
  "truthy JNull = False"
| "truthy (JBool b) = b"
| "truthy (JNum n) = (n \<noteq> 0)"
| "truthy (JStr s) = (s \<noteq> [])"
| "truthy (JArr xs) = True"
| "truthy (JObj kvs) = True"


text \<open>\<^verbatim>\<open>a || b\<close> where \<open>a\<close> may be \<^verbatim>\<open>undefined\<close>.\<close>

fun js_or :: "json option \<Rightarrow> json \<Rightarrow> json" where
  "js_or None b = b"
| "js_or (Some a) b = (if truthy a then a else b)"

text \<open>Truthiness of a \<^verbatim>\<open>string | null\<close> or \<^verbatim>\<open>string | undefined\<close>.\<close>

fun truthy_str :: "string option \<Rightarrow> bool" where
  "truthy_str None = False"
| "truthy_str (Some m) = (m \<noteq> [])"

text \<open>
  \<^verbatim>\<open>v.k\<close> for a value \<open>v\<close> that is not \<^verbatim>\<open>null\<close> (on \<^verbatim>\<open>null\<close> the read throws a TypeError,
  which every caller below handles before it reads). An object parsed from JSON keeps
  the last of two bindings of a key. The keys read by this program (\<^verbatim>\<open>code\<close>,
  \<^verbatim>\<open>channels\<close>, \<^verbatim>\<open>id\<close>, \<^verbatim>\<open>name\<close>, \<^verbatim>\<open>unique_name\<close>, \<^verbatim>\<open>label\<close>, \<^verbatim>\<open>value\<close>, \<^verbatim>\<open>access_token\<close>,
  \<^verbatim>\<open>expires_in\<close>, \<^verbatim>\<open>expires_at\<close>) are no properties of strings, numbers, booleans
  or arrays, so there the read is \<^verbatim>\<open>undefined\<close>.
\<close>

fun js_get :: "json \<Rightarrow> string \<Rightarrow> json option" where
  "js_get (JObj kvs) k = map_of (rev kvs) k"
| "js_get v k = None"

text \<open>Decimal digits of a natural number, as a template literal prints a number.\<close>

fun dec :: "nat \<Rightarrow> string" where
  "dec n = (if n < 10 then [char_of (48 + n)] else dec (n div 10) @ [char_of (48 + n mod 10)])"

declare dec.simps [simp del]

definition show_int :: "int \<Rightarrow> string" where
  "show_int i = (if i < 0 then CHR ''-'' # dec (nat (- i)) else dec (nat i))"

text \<open>\<^verbatim>\<open>xs.join(sep)\<close> on strings.\<close>

fun join :: "string \<Rightarrow> string list \<Rightarrow> string" where
  "join sep [] = []"
| "join sep [x] = x"
| "join sep (x # y # ys) = x @ sep @ join sep (y # ys)"

text \<open>
  \<^verbatim>\<open>`${v}`\<close>: the string conversion of a template literal. An array prints its elements
  joined by commas, \<^verbatim>\<open>null\<close> elements as the empty string.
\<close>

fun js_String :: "json \<Rightarrow> string" and js_String_elem :: "json \<Rightarrow> string" where
  "js_String JNull = ''null''"
| "js_String (JBool b) = (if b then ''true'' else ''false'')"
| "js_String (JNum n) = show_int n"
| "js_String (JStr s) = s"
| "js_String (JArr xs) = join '','' (map js_String_elem xs)"
| "js_String (JObj kvs) = ''[object Object]''"
| "js_String_elem v = (if v = JNull then [] else js_String v)"

text \<open>
  \<^verbatim>\<open>s.indexOf(pat)\<close>, \<open>None\<close> for \<^verbatim>\<open>-1\<close>, and \<^verbatim>\<open>s.replace(pat, rep)\<close> with a string pattern:
  only the first occurrence is replaced, and in the replacement text \<^verbatim>\<open>$$\<close> stands for a
  dollar sign, \<^verbatim>\<open>$&\<close> for the matched text, \<^verbatim>\<open>$`\<close> for the text before the match and
  \<^verbatim>\<open>$'\<close> for the text after it.
\<close>

fun indexOf :: "string \<Rightarrow> string \<Rightarrow> nat option" where
  "indexOf [] pat = (if pat = [] then Some 0 else None)"
| "indexOf (c # cs) pat =
     (if prefix pat (c # cs) then Some 0 else map_option Suc (indexOf cs pat))"

fun GetSubstitution :: "string \<Rightarrow> string \<Rightarrow> string \<Rightarrow> string \<Rightarrow> string" where
  "GetSubstitution matched preceding following [] = []"
| "GetSubstitution matched preceding following [c] = [c]"
| "GetSubstitution matched preceding following (c # d # ds) =
     (if c = CHR ''$'' \<and> d = CHR ''$'' then CHR ''$'' # GetSubstitution matched preceding following ds
      else if c = CHR ''$'' \<and> d = CHR ''&'' then matched @ GetSubstitution matched preceding following ds
      else if c = CHR ''$'' \<and> d = CHR 0x60 then preceding @ GetSubstitution matched preceding following ds
      else if c = CHR ''$'' \<and> d = CHR 0x27 then following @ GetSubstitution matched preceding following ds
      else c # GetSubstitution matched preceding following (d # ds))"

definition js_replace :: "string \<Rightarrow> string \<Rightarrow> string \<Rightarrow> string" where
  "js_replace s pat rep =
     (case indexOf s pat of
        None \<Rightarrow> s
      | Some i \<Rightarrow>
          take i s
          @ GetSubstitution pat (take i s) (drop (i + length pat) s) rep
          @ drop (i + length pat) s)"

text \<open>\<^verbatim>\<open>s.replace(/'/g, "'\\''")\<close>: every single quote becomes \<^verbatim>\<open>'\''\<close>.\<close>

definition shell_quote :: "string \<Rightarrow> string" where
  "shell_quote s = concat (map (\<lambda>c. if c = CHR 0x27 then [CHR 0x27, CHR 0x5C, CHR 0x27, CHR 0x27] else [c]) s)"

text \<open>
  \<^verbatim>\<open>parsed.find((f) => f.label === l)?.value\<close>. The callback reads \<^verbatim>\<open>f.label\<close>, which throws
  on a \<^verbatim>\<open>null\<close> element met before a match; \<^verbatim>\<open>parsed.find\<close> itself throws unless
  \<open>parsed\<close> is an array. The outer \<open>None\<close> is the thrown TypeError, \<open>Some None\<close> is
  \<^verbatim>\<open>undefined\<close>.
\<close>

fun find_label :: "string \<Rightarrow> json list \<Rightarrow> json option option" where
  "find_label l [] = Some None"
| "find_label l (f # fs) =
     (if f = JNull then None
      else if js_get f ''label'' = Some (JStr l) then Some (Some f)
      else find_label l fs)"

definition find_value :: "string \<Rightarrow> json \<Rightarrow> json option option" where
  "find_value l parsed =
     (case parsed of
        JArr fs \<Rightarrow>
          (case find_label l fs of
             None \<Rightarrow> None
           | Some None \<Rightarrow> Some None
           | Some (Some f) \<Rightarrow> Some (js_get f ''value''))
      | _ \<Rightarrow> None)"

section \<open>The process environment\<close>

text \<open>
  Everything the client does to the outside goes through \<^verbatim>\<open>execSync\<close> (the \<^verbatim>\<open>op\<close> secret
  manager and \<^verbatim>\<open>curl\<close>), the file system and the clock. Each such step is recorded in a
  log, in the order of execution; \<open>Resolve\<close> marks an entry of a credential resolver
  (it is a ghost event: a resolver can answer from memory without any other trace).
  \<open>ConfigWrite\<close> carries the content and the \<^verbatim>\<open>mode\<close> option of the call.
\<close>

datatype event =
    Resolve
  | ConfigExists
  | ConfigRead
  | ConfigWrite string nat
  | OpExec string
  | TokenCurl string
  | ApiCurl string
  | ResponseRead

text \<open>
  What \<^verbatim>\<open>curl -s\<close> meets: either the subprocess fails (no connection, the timeout; \<^verbatim>\<open>execSync\<close>
  throws with this message) or the server answers with a status code and a body. \<^verbatim>\<open>curl\<close>
  without \<^verbatim>\<open>-f\<close> exits normally whatever the status.
\<close>

datatype curl_out = CurlFailed string | Response nat string

text \<open>
  The world is what the program cannot change: the environment variables, the answers of
  the subprocesses (which may depend on everything done so far, hence the log argument),
  whether the file system lets the process read and write the cache file and read the
  temporary response file, and the functions of the JavaScript runtime and of the
  validation library that are taken as given: \<^verbatim>\<open>JSON.parse\<close> (\<open>Inl\<close> is the message of
  the SyntaxError), \<^verbatim>\<open>JSON.stringify\<close>, without and with indentation, the conversion
  of a string to a number (\<open>None\<close> is \<^verbatim>\<open>NaN\<close>), \<^verbatim>\<open>Date.prototype.toISOString\<close> and the
  message of the error that a schema throws on an input it rejects.
\<close>

record world =
  env :: "string \<Rightarrow> string option"
  op_cli :: "event list \<Rightarrow> string \<Rightarrow> string + string"
  curl_cli :: "event list \<Rightarrow> string \<Rightarrow> curl_out"
  fs_read_ok :: bool
  fs_write_ok :: bool
  tmp_read_ok :: bool
  JSON_parse :: "string \<Rightarrow> string + json"
  JSON_stringify :: "json \<Rightarrow> string"
  JSON_stringify_indent :: "json \<Rightarrow> string"
  StringToNumber :: "string \<Rightarrow> int option"
  toISOString :: "int \<Rightarrow> string"
  ZodError_message :: "json option \<Rightarrow> string"

text \<open>\<^verbatim>\<open>process.env.K || dflt\<close>.\<close>

definition env_or :: "world \<Rightarrow> string \<Rightarrow> string \<Rightarrow> string" where
  "env_or w k dflt = (case env w k of None \<Rightarrow> dflt | Some v \<Rightarrow> if v \<noteq> [] then v else dflt)"

text \<open>
  The conversion to a number that \<^verbatim>\<open><\<close> and \<^verbatim>\<open>*\<close> apply to an operand. An array is first
  converted to its string.
\<close>

fun ToNumber :: "world \<Rightarrow> json \<Rightarrow> int option" where
  "ToNumber w JNull = Some 0"
| "ToNumber w (JBool b) = Some (if b then 1 else 0)"
| "ToNumber w (JNum n) = Some n"
| "ToNumber w (JStr s) = StringToNumber w s"
| "ToNumber w (JArr xs) = StringToNumber w (js_String (JArr xs))"
| "ToNumber w (JObj kvs) = None"

text \<open>The messages of the TypeErrors of Node's engine that the program can meet.\<close>

definition TypeError_null_code :: string where
  "TypeError_null_code = ''Cannot read properties of null (reading 'code')''"

definition TypeError_null_id :: string where
  "TypeError_null_id = ''Cannot read properties of null (reading 'id')''"

definition TypeError_map :: string where
  "TypeError_map = ''response.channels.map is not a function''"

section \<open>The OAuth client\<close>

subsection \<open>Types and state\<close>

record CliqChannel =
  id :: "json option"
  name :: "json option"
  unique_name :: "json option"

record SendMessageInput =
  text' :: string
  channelId :: "string option"
  channelName :: "string option"
  chatId :: "string option"
  userId :: "string option"

record ApiResponse =
  data :: json
  error :: "string option"

text \<open>
  The module's variable \<^verbatim>\<open>cachedToken\<close> is declared \<^verbatim>\<open>string | null\<close> and assigned from
  parsed JSON without a check, so that at run time it holds any JSON value. The state
  also holds the content of the file at \<^verbatim>\<open>CONFIG_PATH\<close> (\<open>None\<close> when there is no such
  file) and the reading of the clock, \<^verbatim>\<open>Date.now()\<close>, which no function changes.
\<close>

record state =
  cachedToken :: json
  configFile :: "string option"
  now :: int
  log :: "event list"

definition record_event :: "event \<Rightarrow> state \<Rightarrow> state" where
  "record_event e s = s\<lparr>log := log s @ [e]\<rparr>"

definition OP_ITEM_ID :: "world \<Rightarrow> string" where
  "OP_ITEM_ID w = env_or w ''CLIQ_OP_ITEM'' ''cliq.zoho.com''"

definition BASE_URL :: "world \<Rightarrow> string" where
  "BASE_URL w = env_or w ''CLIQ_BASE_URL'' ''https://cliq.zoho.com/api/v2''"

definition op_command :: \<open>string \<Rightarrow> string \<Rightarrow> string\<close> where
  \<open>op_command item field =
     ''op item get "'' @ item @ ''" --fields label='' @ field @ '' --format json''\<close>

subsection \<open>Credentials\<close>

definition token_command :: "json \<Rightarrow> json \<Rightarrow> json \<Rightarrow> string" where
  "token_command refreshToken clientId clientSecret =
     ''curl -s -X POST 'https://accounts.zoho.com/oauth/v2/token' ''
     @ ''-d 'refresh_token='' @ js_String refreshToken @ [CHR 0x27] @ '' ''
     @ ''-d 'client_id='' @ js_String clientId @ [CHR 0x27] @ '' ''
     @ ''-d 'client_secret='' @ js_String clientSecret @ [CHR 0x27] @ '' ''
     @ ''-d 'grant_type=refresh_token'' @ [CHR 0x27]"

text \<open>
  The record that a refresh writes to the cache file:
  \<^verbatim>\<open>expires_at: Date.now() + expiresIn * 1000\<close>, where \<^verbatim>\<open>JSON.stringify\<close> prints \<^verbatim>\<open>NaN\<close> as
  \<^verbatim>\<open>null\<close>.
\<close>

definition token_record :: "world \<Rightarrow> int \<Rightarrow> json \<Rightarrow> json \<Rightarrow> json" where
  "token_record w t token expiresIn =
     JObj [(''access_token'', token),
           (''expires_at'',
              (case ToNumber w expiresIn of None \<Rightarrow> JNull | Some n \<Rightarrow> JNum (t + n * 1000))),
           (''created'', JStr (toISOString w t)),
           (''source'', JStr ''1password-refresh'')]"

text \<open>\<^verbatim>\<open>writeFileSync(CONFIG_PATH, content, { mode: 0o600 })\<close> inside its own \<^verbatim>\<open>try\<close>.\<close>

definition writeConfig :: "world \<Rightarrow> string \<Rightarrow> state \<Rightarrow> state" where
  "writeConfig w content s =
     (let s1 = record_event (ConfigWrite content 384) s
      in if fs_write_ok w then s1\<lparr>configFile := Some content\<rparr> else s1)"

text \<open>
  \<^verbatim>\<open>refreshAccessToken\<close>: one \<^verbatim>\<open>try\<close> around everything, whose \<^verbatim>\<open>catch\<close> returns \<^verbatim>\<open>null\<close>.
  Both \<^verbatim>\<open>op\<close> commands run before either output is parsed. A \<^verbatim>\<open>null\<close> response throws at
  \<^verbatim>\<open>response.access_token\<close>; an \<^verbatim>\<open>undefined\<close> client id or secret is falsy.
\<close>

definition refreshAccessToken :: "world \<Rightarrow> state \<Rightarrow> json \<Rightarrow> json \<times> state" where
  "refreshAccessToken w s refreshToken =
     (let s1 = record_event (OpExec (op_command (OP_ITEM_ID w) ''client_id'')) s
      in case op_cli w (log s) (op_command (OP_ITEM_ID w) ''client_id'') of
        Inl m \<Rightarrow> (JNull, s1)
      | Inr clientIdResult \<Rightarrow>
     (let s2 = record_event (OpExec (op_command (OP_ITEM_ID w) ''client_secret'')) s1
      in case op_cli w (log s1) (op_command (OP_ITEM_ID w) ''client_secret'') of
        Inl m \<Rightarrow> (JNull, s2)
      | Inr clientSecretResult \<Rightarrow>
     (case JSON_parse w clientIdResult of
        Inl m \<Rightarrow> (JNull, s2)
      | Inr idParsed \<Rightarrow>
     (case find_value ''client_id'' idParsed of
        None \<Rightarrow> (JNull, s2)
      | Some clientId \<Rightarrow>
     (case JSON_parse w clientSecretResult of
        Inl m \<Rightarrow> (JNull, s2)
      | Inr secretParsed \<Rightarrow>
     (case find_value ''client_secret'' secretParsed of
        None \<Rightarrow> (JNull, s2)
      | Some clientSecret \<Rightarrow>
     (case (clientId, clientSecret) of
        (Some cid, Some csec) \<Rightarrow>
     (if \<not> truthy cid \<or> \<not> truthy csec then (JNull, s2)
      else
     (let cmd = token_command refreshToken cid csec;
          s3 = record_event (TokenCurl cmd) s2
      in case curl_cli w (log s2) cmd of
        CurlFailed m \<Rightarrow> (JNull, s3)
      | Response st result \<Rightarrow>
     (case JSON_parse w result of
        Inl m \<Rightarrow> (JNull, s3)
      | Inr response \<Rightarrow>
     (if response = JNull then (JNull, s3)
      else
     (case js_get response ''access_token'' of
        None \<Rightarrow> (JNull, s3)
      | Some token \<Rightarrow>
     (if truthy token then
        (let expiresIn = js_or (js_get response ''expires_in'') (JNum 3600);
             s4 = writeConfig w (JSON_stringify w (token_record w (now s3) token expiresIn)) s3
         in (token, s4\<lparr>cachedToken := token\<rparr>))
      else (JNull, s3)))))))
      | _ \<Rightarrow> (JNull, s2))))))))"

text \<open>
  \<^verbatim>\<open>Date.now() < v\<close> for a value \<open>v\<close> read from JSON: the right operand is converted to a
  number, and a comparison with \<^verbatim>\<open>NaN\<close> is false.
\<close>

definition js_lt :: "world \<Rightarrow> int \<Rightarrow> json \<Rightarrow> bool" where
  "js_lt w t v = (case ToNumber w v of None \<Rightarrow> False | Some e \<Rightarrow> t < e)"

text \<open>
  The test of step 2 on the parsed cache file,
  \<^verbatim>\<open>config.access_token && config.expires_at && Date.now() < config.expires_at\<close>,
  and the token it lets through.
\<close>

definition config_token :: "world \<Rightarrow> int \<Rightarrow> json \<Rightarrow> json option" where
  "config_token w t config =
     (case (js_get config ''access_token'', js_get config ''expires_at'') of
        (Some token, Some expires_at) \<Rightarrow>
          if truthy token \<and> truthy expires_at \<and> js_lt w t expires_at then Some token else None
      | _ \<Rightarrow> None)"

text \<open>Step 3 of \<^verbatim>\<open>loadToken\<close>: the refresh token from the secret manager, then the refresh.\<close>

definition loadToken_op :: "world \<Rightarrow> state \<Rightarrow> json \<times> state" where
  "loadToken_op w s =
     (let cmd = op_command (OP_ITEM_ID w) ''refresh_token'';
          s1 = record_event (OpExec cmd) s
      in case op_cli w (log s) cmd of
        Inl m \<Rightarrow> (JNull, s1)
      | Inr result \<Rightarrow>
     (case JSON_parse w result of
        Inl m \<Rightarrow> (JNull, s1)
      | Inr parsed \<Rightarrow>
     (case find_value ''refresh_token'' parsed of
        Some (Some refreshToken) \<Rightarrow>
          if truthy refreshToken then refreshAccessToken w s1 refreshToken else (JNull, s1)
      | _ \<Rightarrow> (JNull, s1))))"

text \<open>
  Step 2 of \<^verbatim>\<open>loadToken\<close>: the cache file. A file that cannot be read, is not JSON, is
  \<^verbatim>\<open>null\<close> or fails the test falls through to step 3.
\<close>

definition loadToken_file :: "world \<Rightarrow> state \<Rightarrow> json \<times> state" where
  "loadToken_file w s =
     (let s1 = record_event ConfigExists s
      in case configFile s1 of
        None \<Rightarrow> loadToken_op w s1
      | Some content \<Rightarrow>
     (let s2 = record_event ConfigRead s1
      in if \<not> fs_read_ok w then loadToken_op w s2
      else
     (case JSON_parse w content of
        Inl m \<Rightarrow> loadToken_op w s2
      | Inr config \<Rightarrow>
     (if config = JNull then loadToken_op w s2
      else
     (case config_token w (now s2) config of
        Some token \<Rightarrow> (token, s2\<lparr>cachedToken := token\<rparr>)
      | None \<Rightarrow> loadToken_op w s2)))))"

text \<open>\<^verbatim>\<open>loadToken\<close>: the memory slot, then step 1 (the environment variable), then the rest.\<close>

definition loadToken :: "world \<Rightarrow> state \<Rightarrow> json \<times> state" where
  "loadToken w s0 =
     (let s = record_event Resolve s0
      in if truthy (cachedToken s) then (cachedToken s, s)
      else
     (case env w ''CLIQ_ACCESS_TOKEN'' of
        None \<Rightarrow> loadToken_file w s
      | Some envToken \<Rightarrow>
          if envToken \<noteq> [] then (JStr envToken, s\<lparr>cachedToken := JStr envToken\<rparr>)
          else loadToken_file w s))"

definition clearTokenCache :: "world \<Rightarrow> state \<Rightarrow> state" where
  "clearTokenCache w s =
     (let s1 = record_event ConfigExists (s\<lparr>cachedToken := JNull\<rparr>)
      in case configFile s1 of
        None \<Rightarrow> s1
      | Some content \<Rightarrow> writeConfig w ''{}'' s1)"

subsection \<open>The request\<close>

definition auth_value :: "json \<Rightarrow> string" where
  "auth_value token = ''Zoho-oauthtoken '' @ js_String token"

text \<open>
  The command line of \<^verbatim>\<open>apiRequest\<close>; \<open>bodyFlag\<close> is the \<^verbatim>\<open>-d '...'\<close> part, empty without a
  body.
\<close>

definition api_command :: "string \<Rightarrow> string \<Rightarrow> json \<Rightarrow> string \<Rightarrow> string" where
  "api_command method url token bodyFlag =
     ''curl -s -X '' @ method @ '' '' @ [CHR 0x27] @ url @ [CHR 0x27] @ '' ''
     @ ''-H 'Authorization: '' @ auth_value token @ [CHR 0x27] @ '' ''
     @ ''-H 'Content-Type: application/json' ''
     @ bodyFlag"

definition body_flag :: "world \<Rightarrow> json option \<Rightarrow> string" where
  "body_flag w body =
     (case body of
        None \<Rightarrow> []
      | Some b \<Rightarrow>
          if truthy b then ''-d '' @ [CHR 0x27] @ shell_quote (JSON_stringify w b) @ [CHR 0x27]
          else [])"

definition failed :: "string \<Rightarrow> ApiResponse" where
  "failed m = \<lparr>data = JNull, error = Some m\<rparr>"

definition auth_rejected :: "json \<Rightarrow> bool" where
  "auth_rejected d \<longleftrightarrow>
     js_get d ''code'' = Some (JStr ''INVALID_OAUTH'') \<or> js_get d ''code'' = Some (JStr ''OAUTH_EXPIRED'')"

text \<open>
  \<^verbatim>\<open>execSync(cmd)\<close> of a \<^verbatim>\<open>curl -s\<close> command followed by \<^verbatim>\<open>JSON.parse\<close> of what it printed,
  both inside the \<^verbatim>\<open>try\<close> of \<^verbatim>\<open>apiRequest\<close>: \<open>Inl\<close> is the message of whatever was thrown.
  The command prints the body only, so the status code of the answer is dropped here.
\<close>

definition curl_json :: "world \<Rightarrow> event list \<Rightarrow> string \<Rightarrow> string + json" where
  "curl_json w h cmd =
     (case curl_cli w h cmd of
        CurlFailed m \<Rightarrow> Inl m
      | Response st result \<Rightarrow> JSON_parse w result)"

definition apiRequest ::
  "world \<Rightarrow> state \<Rightarrow> string \<Rightarrow> string \<Rightarrow> json option \<Rightarrow> ApiResponse \<times> state" where
  "apiRequest w s endpoint method body =
     (case loadToken w s of (token, s1) \<Rightarrow>
      if \<not> truthy token then
        (failed ''No access token available. Check CLIQ_ACCESS_TOKEN env var or 1Password item.'', s1)
      else
     (let url = (if prefix ''http'' endpoint then endpoint else BASE_URL w @ endpoint);
          curlCmd = api_command method url token (body_flag w body);
          s2 = record_event (ApiCurl curlCmd) s1
      in case curl_json w (log s1) curlCmd of
        Inl m \<Rightarrow> (failed m, s2)
      | Inr d \<Rightarrow>
     (if d = JNull then (failed TypeError_null_code, s2)
      else if auth_rejected d then
        (case loadToken w (clearTokenCache w s2) of (newToken, s4) \<Rightarrow>
         if \<not> truthy newToken then (failed ''Failed to refresh access token'', s4)
         else
        (let retryCmd = js_replace curlCmd (auth_value token) (auth_value newToken);
             s5 = record_event (ApiCurl retryCmd) s4
         in case curl_json w (log s4) retryCmd of
           Inl m \<Rightarrow> (failed m, s5)
         | Inr d2 \<Rightarrow> (\<lparr>data = d2, error = None\<rparr>, s5)))
      else (\<lparr>data = d, error = None\<rparr>, s2))))"

subsection \<open>The three operations\<close>

record ChannelsResult =
  channels :: "CliqChannel list"
  channels_error :: "string option"

record MessageResult =
  message :: json
  message_error :: "string option"

record ReplyInput =
  messageId :: string
  replyText :: string

record ReplyResult =
  reply :: json
  reply_error :: "string option"

text \<open>
  \<^verbatim>\<open>cs.map((c) => ({ id: c.id, name: c.name, unique_name: c.unique_name }))\<close>: \<open>None\<close> when
  an element is \<^verbatim>\<open>null\<close>, where \<^verbatim>\<open>c.id\<close> throws.
\<close>

fun map_channels :: "json list \<Rightarrow> CliqChannel list option" where
  "map_channels [] = Some []"
| "map_channels (c # cs) =
     (if c = JNull then None
      else map_option
             (\<lambda>rest. \<lparr>id = js_get c ''id'', name = js_get c ''name'',
                       unique_name = js_get c ''unique_name''\<rparr> # rest)
             (map_channels cs))"

text \<open>
  \<^verbatim>\<open>listChannels\<close>. The two TypeErrors that the mapping can throw are not caught here: they
  leave the function (\<open>Inl\<close>) and reach the caller.
\<close>

definition listChannels :: "world \<Rightarrow> state \<Rightarrow> (string + ChannelsResult) \<times> state" where
  "listChannels w s =
     (case apiRequest w s ''/channels'' ''GET'' None of (r, s') \<Rightarrow>
      if truthy_str (error r) \<or> \<not> truthy (data r) then
        (Inr \<lparr>channels = [], channels_error = error r\<rparr>, s')
      else
     (case js_get (data r) ''channels'' of
        None \<Rightarrow> (Inr \<lparr>channels = [], channels_error = Some ''Unexpected response format''\<rparr>, s')
      | Some cs \<Rightarrow>
          if \<not> truthy cs then
            (Inr \<lparr>channels = [], channels_error = Some ''Unexpected response format''\<rparr>, s')
          else
         (case cs of
            JArr entries \<Rightarrow>
              (case map_channels entries of
                 None \<Rightarrow> (Inl TypeError_null_id, s')
               | Some chs \<Rightarrow> (Inr \<lparr>channels = chs, channels_error = None\<rparr>, s'))
          | _ \<Rightarrow> (Inl TypeError_map, s'))))"

text \<open>\<^verbatim>\<open>`${v}`\<close> for an optional string field.\<close>

fun interp :: "string option \<Rightarrow> string" where
  "interp None = ''undefined''"
| "interp (Some v) = v"

definition sendMessage :: "world \<Rightarrow> state \<Rightarrow> SendMessageInput \<Rightarrow> MessageResult \<times> state" where
  "sendMessage w s input =
     (if text' input = [] then
        (\<lparr>message = JNull, message_error = Some ''Message text is required''\<rparr>, s)
      else
     (let endpoint =
           (if truthy_str (channelId input) then
              Some (''/channels/'' @ interp (channelId input) @ ''/messages'')
            else if truthy_str (channelName input) then
              Some (''/channelsbyname/'' @ interp (channelName input) @ ''/message'')
            else if truthy_str (chatId input) then
              Some (''/chats/'' @ interp (chatId input) @ ''/messages'')
            else if truthy_str (userId input) then
              Some (''/users/'' @ interp (userId input) @ ''/messages'')
            else None)
      in case endpoint of
        None \<Rightarrow>
          (\<lparr>message = JNull,
            message_error = Some ''Must specify channelId, channelName, chatId, or userId''\<rparr>, s)
      | Some ep \<Rightarrow>
     (let payload = JObj [(''text'', JStr (text' input)), (''sync_message'', JBool True)]
      in case apiRequest w s ep ''POST'' (Some payload) of (r, s') \<Rightarrow>
         if truthy_str (error r) \<or> \<not> truthy (data r) then
           (\<lparr>message = JNull, message_error = error r\<rparr>, s')
         else (\<lparr>message = data r, message_error = None\<rparr>, s'))))"

definition replyToMessage :: "world \<Rightarrow> state \<Rightarrow> ReplyInput \<Rightarrow> ReplyResult \<times> state" where
  "replyToMessage w s input =
     (if replyText input = [] \<or> messageId input = [] then
        (\<lparr>reply = JNull, reply_error = Some ''Message ID and text are required''\<rparr>, s)
      else
     (let payload = JObj [(''text'', JStr (replyText input)),
                          (''parent_message_id'', JStr (messageId input))]
      in case apiRequest w s ''/messages'' ''POST'' (Some payload) of (r, s') \<Rightarrow>
         if truthy_str (error r) \<or> \<not> truthy (data r) then
           (\<lparr>reply = JNull, reply_error = error r\<rparr>, s')
         else (\<lparr>reply = data r, reply_error = None\<rparr>, s')))"

section \<open>The webhook client\<close>

text \<open>
  The second variant of the client sends through a bot's incoming webhook and lists
  channels with an OAuth token that it keeps in memory only. Its functions that share a
  name with the OAuth client carry the prefix \<open>wh_\<close>.
\<close>

subsection \<open>Types and state\<close>

record wh_SendMessageInput =
  wh_text :: string
  wh_channelName :: "string option"
  wh_chatId :: "string option"
  wh_userId :: "string option"

record wh_SendResult =
  success :: bool
  send_error :: "string option"

text \<open>
  \<^verbatim>\<open>oauthExpiresAt\<close> is a number, \<open>None\<close> when the sum that set it was \<^verbatim>\<open>NaN\<close>.
  \<open>responseFile\<close> is the content of \<^verbatim>\<open>/tmp/cliq-mcp-response.txt\<close>, where \<^verbatim>\<open>curl -o\<close> puts
  the body of the answer.
\<close>

record wh_state =
  cachedZapikey :: json
  cachedOAuthToken :: json
  oauthExpiresAt :: "int option"
  responseFile :: "string option"
  wh_now :: int
  wh_log :: "event list"

definition wh_record_event :: "event \<Rightarrow> wh_state \<Rightarrow> wh_state" where
  "wh_record_event e s = s\<lparr>wh_log := wh_log s @ [e]\<rparr>"

definition wh_BASE_URL :: string where
  "wh_BASE_URL = ''https://cliq.zoho.com/api/v2''"

definition BOT_NAME :: "world \<Rightarrow> string" where
  "BOT_NAME w = env_or w ''CLIQ_BOT_NAME'' ''guidobarton''"

definition DEFAULT_CHANNEL :: "world \<Rightarrow> string" where
  "DEFAULT_CHANNEL w = env_or w ''CLIQ_DEFAULT_CHANNEL'' ''luminous''"

definition WEBHOOK_OP_ITEM :: "world \<Rightarrow> string" where
  "WEBHOOK_OP_ITEM w = env_or w ''CLIQ_WEBHOOK_OP_ITEM'' ''Cliq luminous-agent-api''"

definition OAUTH_OP_ITEM :: "world \<Rightarrow> string" where
  "OAUTH_OP_ITEM w = env_or w ''CLIQ_OAUTH_OP_ITEM'' ''cliq.zoho.com''"

subsection \<open>Credentials\<close>

text \<open>
  \<^verbatim>\<open>opGet\<close>: whatever is thrown gives \<^verbatim>\<open>null\<close>, and so does an \<^verbatim>\<open>undefined\<close> value
  (\<^verbatim>\<open>?? null\<close>). Output that is \<^verbatim>\<open>null\<close> throws at \<^verbatim>\<open>parsed.value\<close>.
\<close>

definition opGet :: "world \<Rightarrow> wh_state \<Rightarrow> string \<Rightarrow> string \<Rightarrow> json \<times> wh_state" where
  "opGet w s item field =
     (let cmd = op_command item field;
          s1 = wh_record_event (OpExec cmd) s
      in case op_cli w (wh_log s) cmd of
        Inl m \<Rightarrow> (JNull, s1)
      | Inr result \<Rightarrow>
     (case JSON_parse w result of
        Inl m \<Rightarrow> (JNull, s1)
      | Inr parsed \<Rightarrow>
     (case parsed of
        JArr fs \<Rightarrow>
          (case find_value field parsed of
             Some (Some v) \<Rightarrow> (v, s1)
           | _ \<Rightarrow> (JNull, s1))
      | JNull \<Rightarrow> (JNull, s1)
      | _ \<Rightarrow>
          (case js_get parsed ''value'' of
             Some v \<Rightarrow> (v, s1)
           | None \<Rightarrow> (JNull, s1)))))"

definition getZapikey :: "world \<Rightarrow> wh_state \<Rightarrow> json \<times> wh_state" where
  "getZapikey w s0 =
     (let s = wh_record_event Resolve s0
      in if truthy (cachedZapikey s) then (cachedZapikey s, s)
      else if truthy_str (env w ''CLIQ_ZAPIKEY'') then
        (JStr (interp (env w ''CLIQ_ZAPIKEY'')),
         s\<lparr>cachedZapikey := JStr (interp (env w ''CLIQ_ZAPIKEY''))\<rparr>)
      else
        (case opGet w s (WEBHOOK_OP_ITEM w) ''credential'' of (v, s1) \<Rightarrow>
           (v, s1\<lparr>cachedZapikey := v\<rparr>)))"

text \<open>\<^verbatim>\<open>Date.now() < oauthExpiresAt\<close>, false on \<^verbatim>\<open>NaN\<close>.\<close>

definition before_expiry :: "int \<Rightarrow> int option \<Rightarrow> bool" where
  "before_expiry t e = (case e of None \<Rightarrow> False | Some x \<Rightarrow> t < x)"

text \<open>\<^verbatim>\<open>Date.now() + expiresIn * 1000\<close>.\<close>

definition expiry_after :: "world \<Rightarrow> int \<Rightarrow> json \<Rightarrow> int option" where
  "expiry_after w t expiresIn = map_option (\<lambda>n. t + n * 1000) (ToNumber w expiresIn)"

definition getOAuthToken :: "world \<Rightarrow> wh_state \<Rightarrow> json \<times> wh_state" where
  "getOAuthToken w s0 =
     (let s = wh_record_event Resolve s0
      in if truthy (cachedOAuthToken s) \<and> before_expiry (wh_now s) (oauthExpiresAt s) then
           (cachedOAuthToken s, s)
      else
     (case opGet w s (OAUTH_OP_ITEM w) ''refresh_token'' of (refreshToken, s1) \<Rightarrow>
      if \<not> truthy refreshToken then (JNull, s1)
      else
     (case opGet w s1 (OAUTH_OP_ITEM w) ''client_id'' of (clientId, s2) \<Rightarrow>
     (case opGet w s2 (OAUTH_OP_ITEM w) ''client_secret'' of (clientSecret, s3) \<Rightarrow>
      if \<not> truthy clientId \<or> \<not> truthy clientSecret then (JNull, s3)
      else
     (let cmd = token_command refreshToken clientId clientSecret;
          s4 = wh_record_event (TokenCurl cmd) s3
      in case curl_cli w (wh_log s3) cmd of
        CurlFailed m \<Rightarrow> (JNull, s4)
      | Response st result \<Rightarrow>
     (case JSON_parse w result of
        Inl m \<Rightarrow> (JNull, s4)
      | Inr response \<Rightarrow>
     (if response = JNull then (JNull, s4)
      else
     (case js_get response ''access_token'' of
        None \<Rightarrow> (JNull, s4)
      | Some token \<Rightarrow>
          if truthy token then
            (token,
             s4\<lparr>cachedOAuthToken := token,
                oauthExpiresAt :=
                  expiry_after w (wh_now s4) (js_or (js_get response ''expires_in'') (JNum 3600))\<rparr>)
          else (JNull, s4)))))))))"

subsection \<open>The request\<close>

definition header_flags :: "(string \<times> string) list \<Rightarrow> string" where
  "header_flags headers =
     join '' '' (map (\<lambda>(k, v). ''-H '' @ [CHR 0x27] @ k @ '': '' @ v @ [CHR 0x27]) headers)"

definition wh_command :: \<open>string \<Rightarrow> string \<Rightarrow> string \<Rightarrow> string \<Rightarrow> string\<close> where
  \<open>wh_command method url headerFlags bodyFlag =
     ''curl -s -o /tmp/cliq-mcp-response.txt -w "%{http_code}" ''
     @ ''-X '' @ method @ '' '' @ [CHR 0x27] @ url @ [CHR 0x27] @ '' '' @ headerFlags
     @ '' '' @ bodyFlag\<close>

text \<open>
  \<^verbatim>\<open>curlJson\<close>. \<^verbatim>\<open>execSync\<close> is outside any \<^verbatim>\<open>try\<close>: a failing subprocess throws out of the
  function (\<open>Inl\<close>). The command prints the status code, which \<^verbatim>\<open>parseInt\<close> reads back,
  and leaves the body in the response file; reading and parsing that file is inside a
  \<^verbatim>\<open>try\<close> that leaves \<open>data\<close> at \<^verbatim>\<open>null\<close>, as an empty body does.
\<close>

definition curlJson ::
  "world \<Rightarrow> wh_state \<Rightarrow> string \<Rightarrow> string \<Rightarrow> (string \<times> string) list \<Rightarrow> json option
     \<Rightarrow> (string + json \<times> nat) \<times> wh_state" where
  "curlJson w s url method headers body =
     (let cmd = wh_command method url (header_flags headers) (body_flag w body);
          s1 = wh_record_event (ApiCurl cmd) s
      in case curl_cli w (wh_log s) cmd of
        CurlFailed m \<Rightarrow> (Inl m, s1)
      | Response status raw \<Rightarrow>
     (let s2 = wh_record_event ResponseRead (s1\<lparr>responseFile := Some raw\<rparr>)
      in if \<not> tmp_read_ok w then (Inr (JNull, status), s2)
      else if raw = [] then (Inr (JNull, status), s2)
      else
     (case JSON_parse w raw of
        Inl m \<Rightarrow> (Inr (JNull, status), s2)
      | Inr d \<Rightarrow> (Inr (d, status), s2))))"

text \<open>\<^verbatim>\<open>`HTTP ${status}: ${JSON.stringify(data)}`\<close>.\<close>

definition http_error :: "world \<Rightarrow> nat \<Rightarrow> json \<Rightarrow> string" where
  "http_error w status d = ''HTTP '' @ dec status @ '': '' @ JSON_stringify w d"

subsection \<open>The operations\<close>

definition wh_listChannels :: "world \<Rightarrow> wh_state \<Rightarrow> (string + ChannelsResult) \<times> wh_state" where
  "wh_listChannels w s =
     (case getOAuthToken w s of (token, s1) \<Rightarrow>
      if \<not> truthy token then
        (Inr \<lparr>channels = [],
              channels_error =
                Some ''No OAuth token available. Check 1Password item 'cliq.zoho.com'.''\<rparr>, s1)
      else
     (case curlJson w s1 (wh_BASE_URL @ ''/channels'') ''GET''
             [(''Authorization'', auth_value token), (''Content-Type'', ''application/json'')]
             None of
        (Inl m, s2) \<Rightarrow> (Inl m, s2)
      | (Inr (d, status), s2) \<Rightarrow>
     (if status < 200 \<or> status \<ge> 300 then
        (Inr \<lparr>channels = [], channels_error = Some (http_error w status d)\<rparr>, s2)
      else
     (case (if d = JNull then None else js_get d ''channels'') of
        None \<Rightarrow> (Inr \<lparr>channels = [], channels_error = Some ''Unexpected response format''\<rparr>, s2)
      | Some cs \<Rightarrow>
          if \<not> truthy cs then
            (Inr \<lparr>channels = [], channels_error = Some ''Unexpected response format''\<rparr>, s2)
          else
         (case cs of
            JArr entries \<Rightarrow>
              (case map_channels entries of
                 None \<Rightarrow> (Inl TypeError_null_id, s2)
               | Some chs \<Rightarrow> (Inr \<lparr>channels = chs, channels_error = None\<rparr>, s2))
          | _ \<Rightarrow> (Inl TypeError_map, s2))))))"

definition wh_sendMessage ::
  "world \<Rightarrow> wh_state \<Rightarrow> wh_SendMessageInput \<Rightarrow> (string + wh_SendResult) \<times> wh_state" where
  "wh_sendMessage w s input =
     (if wh_text input = [] then
        (Inr \<lparr>success = False, send_error = Some ''Message text is required''\<rparr>, s)
      else
     (case getZapikey w s of (zapikey, s1) \<Rightarrow>
      if \<not> truthy zapikey then
        (Inr \<lparr>success = False,
              send_error =
                Some ''No webhook token available. Check 1Password item 'Cliq luminous-agent-api'.''\<rparr>,
         s1)
      else
     (let channel = (if truthy_str (wh_channelName input) then interp (wh_channelName input)
                     else DEFAULT_CHANNEL w);
          url = wh_BASE_URL @ ''/bots/'' @ BOT_NAME w @ ''/incoming?zapikey='' @ js_String zapikey;
          payload = JObj [(''text'', JStr (wh_text input)), (''channel'', JStr channel)]
      in case curlJson w s1 url ''POST'' [(''Content-Type'', ''application/json'')] (Some payload) of
        (Inl m, s2) \<Rightarrow> (Inl m, s2)
      | (Inr (d, status), s2) \<Rightarrow>
          if status \<ge> 200 \<and> status < 300 then
            (Inr \<lparr>success = True, send_error = None\<rparr>, s2)
          else
            (Inr \<lparr>success = False, send_error = Some (http_error w status d)\<rparr>, s2))))"

subsection \<open>The tool handler of the webhook server\<close>

text \<open>
  The schemas of the webhook server. \<^verbatim>\<open>ListChannelsSchema\<close> is \<^verbatim>\<open>z.object({})\<close>, which
  accepts any object. \<^verbatim>\<open>SendMessageSchema\<close> wants a string \<^verbatim>\<open>text\<close> of at least one
  character and lets \<^verbatim>\<open>channelName\<close> be absent or a string; it drops every other key.
  \<open>args\<close> is \<open>None\<close> when the request has no \<^verbatim>\<open>arguments\<close>. \<open>Inl\<close> is the message of
  the error thrown.
\<close>

definition ListChannelsSchema_parse :: "world \<Rightarrow> json option \<Rightarrow> string + unit" where
  "ListChannelsSchema_parse w args =
     (case args of
        Some (JObj kvs) \<Rightarrow> Inr ()
      | _ \<Rightarrow> Inl (ZodError_message w args))"

definition wh_SendMessageSchema_parse ::
  "world \<Rightarrow> json option \<Rightarrow> string + wh_SendMessageInput" where
  "wh_SendMessageSchema_parse w args =
     (case args of
        Some (JObj kvs) \<Rightarrow>
          (case (js_get (JObj kvs) ''text'', js_get (JObj kvs) ''channelName'') of
             (Some (JStr t), None) \<Rightarrow>
               if t \<noteq> [] then
                 Inr \<lparr>wh_text = t, wh_channelName = None, wh_chatId = None, wh_userId = None\<rparr>
               else Inl (ZodError_message w args)
           | (Some (JStr t), Some (JStr c)) \<Rightarrow>
               if t \<noteq> [] then
                 Inr \<lparr>wh_text = t, wh_channelName = Some c, wh_chatId = None, wh_userId = None\<rparr>
               else Inl (ZodError_message w args)
           | _ \<Rightarrow> Inl (ZodError_message w args))
      | _ \<Rightarrow> Inl (ZodError_message w args))"

record ToolResult =
  content :: string
  isError :: bool

text \<open>The channel list as the value that \<^verbatim>\<open>JSON.stringify\<close> prints: no \<^verbatim>\<open>undefined\<close> fields.\<close>

definition channel_json :: "CliqChannel \<Rightarrow> json" where
  "channel_json c =
     JObj (List.map_filter (\<lambda>(k, v). map_option (Pair k) v)
             [(''id'', id c), (''name'', name c), (''unique_name'', unique_name c)])"

definition tool_error :: "string \<Rightarrow> ToolResult" where
  "tool_error m = \<lparr>content = ''Error: '' @ m, isError = True\<rparr>"

text \<open>
  The handler of \<^verbatim>\<open>CallToolRequestSchema\<close>: a \<^verbatim>\<open>switch\<close> on the tool name inside a \<^verbatim>\<open>try\<close>
  whose \<^verbatim>\<open>catch\<close> turns whatever was thrown into an error result.
\<close>

definition wh_callTool ::
  "world \<Rightarrow> wh_state \<Rightarrow> string \<Rightarrow> json option \<Rightarrow> ToolResult \<times> wh_state" where
  "wh_callTool w s name' args =
     (if name' = ''cliq_list_channels'' then
        (case ListChannelsSchema_parse w args of
           Inl m \<Rightarrow> (tool_error m, s)
         | Inr u \<Rightarrow>
        (case wh_listChannels w s of
           (Inl m, s') \<Rightarrow> (tool_error m, s')
         | (Inr result, s') \<Rightarrow>
             if truthy_str (channels_error result) then
               (tool_error (interp (channels_error result)), s')
             else
               (\<lparr>content = JSON_stringify_indent w (JArr (map channel_json (channels result))),
                 isError = False\<rparr>, s')))
      else if name' = ''cliq_send_message'' then
        (case wh_SendMessageSchema_parse w args of
           Inl m \<Rightarrow> (tool_error m, s)
         | Inr validated \<Rightarrow>
        (case wh_sendMessage w s validated of
           (Inl m, s') \<Rightarrow> (tool_error m, s')
         | (Inr result, s') \<Rightarrow>
             if truthy_str (send_error result) then
               (tool_error (interp (send_error result)), s')
             else
               (\<lparr>content = ''Message sent to #''
                            @ (if truthy_str (wh_channelName validated)
                               then interp (wh_channelName validated) else ''luminous'')
                            @ '' as bot.'',
                 isError = False\<rparr>, s')))
      else if name' = ''cliq_reply_to_message'' then
        (\<lparr>content = ''Reply-to-message is not yet supported via bot webhook.'', isError = True\<rparr>, s)
      else
        (\<lparr>content = ''Unknown tool: '' @ name', isError = True\<rparr>, s))"

section \<open>Notions used by the properties\<close>

text \<open>Counting in a log: requests to the API, calls of the secret store, resolutions.\<close>

fun is_ApiCurl :: "event \<Rightarrow> bool" where
  "is_ApiCurl (ApiCurl c) = True"
| "is_ApiCurl e = False"

fun is_secret_store :: "event \<Rightarrow> bool" where
  "is_secret_store (OpExec c) = True"
| "is_secret_store (TokenCurl c) = True"
| "is_secret_store e = False"

definition api_calls :: "event list \<Rightarrow> nat" where
  "api_calls evs = length (filter is_ApiCurl evs)"

definition secret_store_calls :: "event list \<Rightarrow> nat" where
  "secret_store_calls evs = length (filter is_secret_store evs)"

definition resolutions :: "event list \<Rightarrow> nat" where
  "resolutions evs = count_list evs Resolve"

text \<open>
  The memory slot agrees with the environment: when the override variable is set, the
  slot is empty or holds the override. This is so in the initial state, where the slot is
  empty, and the resolver, the invalidation and the dispatcher keep it so.
\<close>

definition consistent :: "world \<Rightarrow> state \<Rightarrow> bool" where
  "consistent w s \<longleftrightarrow>
     (truthy (cachedToken s) \<and> truthy_str (env w ''CLIQ_ACCESS_TOKEN'')
        \<longrightarrow> cachedToken s = JStr (interp (env w ''CLIQ_ACCESS_TOKEN'')))"

text \<open>
  What sending a message to an endpoint is, in the words of the specification: the
  payload \<^verbatim>\<open>{ text, sync_message: true }\<close> is posted to the endpoint through the dispatcher,
  and the answer is the message unless the dispatcher reports an error or has no data.
\<close>

definition spec_post_message :: "world \<Rightarrow> state \<Rightarrow> string \<Rightarrow> string \<Rightarrow> MessageResult \<times> state" where
  "spec_post_message w s endpoint txt =
     (case apiRequest w s endpoint ''POST''
             (Some (JObj [(''text'', JStr txt), (''sync_message'', JBool True)])) of
        (r, s') \<Rightarrow>
          if truthy_str (error r) \<or> \<not> truthy (data r)
          then (\<lparr>message = JNull, message_error = error r\<rparr>, s')
          else (\<lparr>message = data r, message_error = None\<rparr>, s'))"

text \<open>An error of the kind that reports a status code: the text starts with \<^verbatim>\<open>HTTP\<close>.\<close>

definition is_http_error :: "string option \<Rightarrow> bool" where
  "is_http_error e = (case e of None \<Rightarrow> False | Some m \<Rightarrow> prefix ''HTTP '' m)"

text \<open>
  The same world with other status codes: every answer of a server keeps its body and gets
  the status that \<open>f\<close> chooses.
\<close>

definition with_status :: "(event list \<Rightarrow> string \<Rightarrow> nat \<Rightarrow> nat) \<Rightarrow> world \<Rightarrow> world" where
  "with_status f w =
     w\<lparr>curl_cli :=
         (\<lambda>h c. case curl_cli w h c of
                  CurlFailed m \<Rightarrow> CurlFailed m
                | Response st b \<Rightarrow> Response (f h c st) b)\<rparr>"

text \<open>
  Where the value of the Authorization header starts in the command line of
  \<^verbatim>\<open>apiRequest\<close>.
\<close>

definition auth_offset :: "string \<Rightarrow> string \<Rightarrow> nat" where
  "auth_offset method url =
     length (''curl -s -X '' @ method @ '' '' @ [CHR 0x27] @ url @ [CHR 0x27] @ '' ''
             @ ''-H 'Authorization: '')"

section \<open>Concrete worlds\<close>

text \<open>
  Worlds and states on which the properties below are exercised. In \<open>offline\<close> nothing
  outside the process answers: no variable is set, every subprocess fails and nothing
  parses.
\<close>

definition offline :: world where
  "offline =
     \<lparr>env = (\<lambda>k. None),
      op_cli = (\<lambda>h c. Inl ''op: command not found''),
      curl_cli = (\<lambda>h c. CurlFailed ''Command failed: curl''),
      fs_read_ok = True, fs_write_ok = True, tmp_read_ok = True,
      JSON_parse = (\<lambda>x. Inl ''Unexpected end of JSON input''),
      JSON_stringify = (\<lambda>j. ''null''),
      JSON_stringify_indent = (\<lambda>j. ''null''),
      StringToNumber = (\<lambda>x. None),
      toISOString = (\<lambda>t. ''1970-01-01T00:00:01.000Z''),
      ZodError_message = (\<lambda>a. ''Required'')\<rparr>"

text \<open>The JSON texts that occur in the examples, and their values.\<close>

definition demo_parse :: \<open>string \<Rightarrow> string + json\<close> where
  \<open>demo_parse x =
     (if x = ''{}'' then Inr (JObj [])
      else if x = ''{"code":"INVALID_OAUTH"}'' then
        Inr (JObj [(''code'', JStr ''INVALID_OAUTH'')])
      else if x = ''{"message":"Internal Server Error"}'' then
        Inr (JObj [(''message'', JStr ''Internal Server Error'')])
      else if x = ''{"channels":[{"id":"1","name":"General","unique_name":"general"}]}'' then
        Inr (JObj [(''channels'',
               JArr [JObj [(''id'', JStr ''1''), (''name'', JStr ''General''),
                           (''unique_name'', JStr ''general'')]])])
      else if x = ''{"data":[]}'' then Inr (JObj [(''data'', JArr [])])
      else if x = ''[{"label":"refresh_token","value":"rt-1"}]'' then
        Inr (JArr [JObj [(''label'', JStr ''refresh_token''), (''value'', JStr ''rt-1'')]])
      else if x = ''[{"label":"client_id","value":"id-1"}]'' then
        Inr (JArr [JObj [(''label'', JStr ''client_id''), (''value'', JStr ''id-1'')]])
      else if x = ''[{"label":"client_secret","value":"sec-1"}]'' then
        Inr (JArr [JObj [(''label'', JStr ''client_secret''), (''value'', JStr ''sec-1'')]])
      else if x = ''{"access_token":"tok-2","expires_in":3600}'' then
        Inr (JObj [(''access_token'', JStr ''tok-2''), (''expires_in'', JNum 3600)])
      else if x = ''{"access_token":"tok-1","expires_at":5000}'' then
        Inr (JObj [(''access_token'', JStr ''tok-1''), (''expires_at'', JNum 5000)])
      else Inl ''Unexpected token in JSON'')\<close>

definition demo_stringify :: \<open>json \<Rightarrow> string\<close> where
  \<open>demo_stringify j =
     (if j = JObj [(''access_token'', JStr ''tok-2''), (''expires_at'', JNum 3601000),
                   (''created'', JStr ''1970-01-01T00:00:01.000Z''),
                   (''source'', JStr ''1password-refresh'')]
      then ''{"access_token":"tok-2","expires_at":3601000,"created":"1970-01-01T00:00:01.000Z","source":"1password-refresh"}''
      else if j = JObj [(''text'', JStr ''hi''), (''sync_message'', JBool True)]
      then ''{"text":"hi","sync_message":true}''
      else if j = JObj [(''text'', JStr ''hi''), (''channel'', JStr ''luminous'')]
      then ''{"text":"hi","channel":"luminous"}''
      else if j = JObj [(''message'', JStr ''Internal Server Error'')]
      then ''{"message":"Internal Server Error"}''
      else ''null'')\<close>

text \<open>
  In \<open>vault\<close> the secret manager holds a refresh token and the client's id and secret, the
  token endpoint exchanges them for the access token \<^verbatim>\<open>tok-2\<close>, and the API lists one
  channel to a request that carries \<^verbatim>\<open>tok-2\<close> and rejects every other request.
\<close>

definition vault :: world where
  \<open>vault =
     offline
     \<lparr>op_cli :=
        (\<lambda>h c.
           if c = op_command ''cliq.zoho.com'' ''refresh_token'' then
             Inr ''[{"label":"refresh_token","value":"rt-1"}]''
           else if c = op_command ''cliq.zoho.com'' ''client_id'' then
             Inr ''[{"label":"client_id","value":"id-1"}]''
           else if c = op_command ''cliq.zoho.com'' ''client_secret'' then
             Inr ''[{"label":"client_secret","value":"sec-1"}]''
           else Inl ''op: item not found''),
      curl_cli :=
        (\<lambda>h c.
           if c = token_command (JStr ''rt-1'') (JStr ''id-1'') (JStr ''sec-1'') then
             Response 200 ''{"access_token":"tok-2","expires_in":3600}''
           else if c = api_command ''GET'' ''https://cliq.zoho.com/api/v2/channels''
                         (JStr ''tok-2'') [] then
             Response 200 ''{"channels":[{"id":"1","name":"General","unique_name":"general"}]}''
           else Response 401 ''{"code":"INVALID_OAUTH"}''),
      JSON_parse := demo_parse,
      JSON_stringify := demo_stringify\<rparr>\<close>

text \<open>
  In \<open>answering st body\<close> the override variable holds the token \<^verbatim>\<open>tok-1\<close> and every
  request gets the same answer.
\<close>

definition answering :: "nat \<Rightarrow> string \<Rightarrow> world" where
  "answering st body =
     offline
     \<lparr>env := (\<lambda>k. if k = ''CLIQ_ACCESS_TOKEN'' then Some ''tok-1'' else None),
      curl_cli := (\<lambda>h c. Response st body),
      JSON_parse := demo_parse,
      JSON_stringify := demo_stringify\<rparr>"

definition fresh :: state where
  "fresh = \<lparr>cachedToken = JNull, configFile = None, now = 1000, log = []\<rparr>"

text \<open>A state whose memory slot holds a token that the API of \<open>vault\<close> no longer accepts.\<close>

definition stale :: state where
  "stale = \<lparr>cachedToken = JStr ''tok-1'', configFile = None, now = 1000, log = []\<rparr>"

text \<open>A state with a cache file whose record expires at 5000, read at 1000.\<close>

definition cached :: state where
  \<open>cached =
     \<lparr>cachedToken = JNull,
      configFile = Some ''{"access_token":"tok-1","expires_at":5000}'',
      now = 1000, log = []\<rparr>\<close>

definition wh_fresh :: wh_state where
  "wh_fresh =
     \<lparr>cachedZapikey = JNull, cachedOAuthToken = JNull, oauthExpiresAt = Some 0,
      responseFile = None, wh_now = 1000, wh_log = []\<rparr>"

text \<open>A state of the webhook client that holds a webhook key and an unexpired token.\<close>

definition wh_ready :: wh_state where
  "wh_ready =
     \<lparr>cachedZapikey = JStr ''zk-1'', cachedOAuthToken = JStr ''tok-1'', oauthExpiresAt = Some 5000,
      responseFile = None, wh_now = 1000, wh_log = []\<rparr>"

section \<open>Properties\<close>

subsection \<open>Input validation\<close>

text \<open>
  C6. \<^verbatim>\<open>sendMessage\<close> with an empty text returns the failure ``Message text is required''
  whatever selectors are present, and \<^verbatim>\<open>replyToMessage\<close> with an empty message id or an
  empty text returns its input failure. In both cases the state is returned as it was,
  log included: no credential was resolved and no subprocess was started.
\<close>

theorem C6_empty_input_rejected:
  "(text' input = [] \<longrightarrow>
      sendMessage w s input =
        (\<lparr>message = JNull, message_error = Some ''Message text is required''\<rparr>, s)
      \<and> log (snd (sendMessage w s input)) = log s)
   \<and> (replyText r = [] \<or> messageId r = [] \<longrightarrow>
      replyToMessage w s r =
        (\<lparr>reply = JNull, reply_error = Some ''Message ID and text are required''\<rparr>, s)
      \<and> log (snd (replyToMessage w s r)) = log s)"
  by (simp add: sendMessage_def replyToMessage_def)

theorem C6_empty_input_rejected_witness:
  "sendMessage offline fresh
     \<lparr>text' = [], channelId = Some ''42'', channelName = None, chatId = None, userId = Some ''7''\<rparr>
   = (\<lparr>message = JNull, message_error = Some ''Message text is required''\<rparr>, fresh)
   \<and> replyToMessage offline fresh \<lparr>messageId = [], replyText = ''hello''\<rparr>
   = (\<lparr>reply = JNull, reply_error = Some ''Message ID and text are required''\<rparr>, fresh)"
  using C6_empty_input_rejected
    [of "\<lparr>text' = [], channelId = Some ''42'', channelName = None, chatId = None, userId = Some ''7''\<rparr>"
        offline fresh "\<lparr>messageId = [], replyText = ''hello''\<rparr>"]
  by simp

subsection \<open>The webhook server\<close>

text \<open>
  C8. In the webhook server the tool \<^verbatim>\<open>cliq_reply_to_message\<close> answers every call, whatever
  its arguments, with the fixed error text, and returns the state as it was: no
  credential is resolved and no subprocess is started.
\<close>

theorem C8_reply_unsupported:
  "wh_callTool w s ''cliq_reply_to_message'' args =
     (\<lparr>content = ''Reply-to-message is not yet supported via bot webhook.'', isError = True\<rparr>, s)"
  by (simp add: wh_callTool_def)

subsection \<open>Credential resolution\<close>

lemmas counts = api_calls_def secret_store_calls_def resolutions_def

lemma refresh_cached:
  "refreshAccessToken w s r = (t, s') \<Longrightarrow> truthy t \<Longrightarrow> cachedToken s' = t"
  by (auto simp: refreshAccessToken_def Let_def writeConfig_def record_event_def
      split: sum.splits option.splits curl_out.splits prod.splits if_splits)

lemma loadToken_op_cached:
  "loadToken_op w s = (t, s') \<Longrightarrow> truthy t \<Longrightarrow> cachedToken s' = t"
  by (auto simp: loadToken_op_def Let_def dest: refresh_cached
      split: sum.splits option.splits if_splits)

lemma loadToken_file_cached:
  "loadToken_file w s = (t, s') \<Longrightarrow> truthy t \<Longrightarrow> cachedToken s' = t"
  by (auto simp: loadToken_file_def Let_def dest: loadToken_op_cached
      split: sum.splits option.splits if_splits)

lemma loadToken_cached:
  "loadToken w s = (t, s') \<Longrightarrow> truthy t \<Longrightarrow> cachedToken s' = t"
  by (auto simp: loadToken_def Let_def dest: loadToken_file_cached
      split: sum.splits option.splits if_splits)

lemma loadToken_memory:
  "truthy (cachedToken s) \<Longrightarrow> loadToken w s = (cachedToken s, record_event Resolve s)"
  by (simp add: loadToken_def record_event_def)






text \<open>
  C9. The memory slot is returned without any expiry check. A truthy slot is returned as it
  is, with no step but the ghost event. Hence once \<^verbatim>\<open>loadToken\<close> has returned a token, from
  whichever source, every later resolution returns the same token, whatever the clock
  reads then, whatever has become of the cache file, and in whatever world, until
  \<^verbatim>\<open>clearTokenCache\<close> empties the slot.
\<close>

theorem C9_memory_slot_never_expires:
  "(truthy (cachedToken s) \<longrightarrow> loadToken w s = (cachedToken s, record_event Resolve s))
   \<and> (loadToken w s = (t, s') \<and> truthy t \<longrightarrow>
        (\<forall>w' later fl.
           loadToken w' (s'\<lparr>now := later, configFile := fl\<rparr>)
           = (t, record_event Resolve (s'\<lparr>now := later, configFile := fl\<rparr>))))
   \<and> cachedToken (clearTokenCache w s) = JNull"
proof (intro conjI impI allI)
  assume "truthy (cachedToken s)"
  then show "loadToken w s = (cachedToken s, record_event Resolve s)"
    by (rule loadToken_memory)
next
  fix w' later fl
  assume a: "loadToken w s = (t, s') \<and> truthy t"
  then have "cachedToken s' = t" by (blast dest: loadToken_cached)
  with a show "loadToken w' (s'\<lparr>now := later, configFile := fl\<rparr>)
           = (t, record_event Resolve (s'\<lparr>now := later, configFile := fl\<rparr>))"
    using loadToken_memory [of "s'\<lparr>now := later, configFile := fl\<rparr>" w'] by simp
next
  show "cachedToken (clearTokenCache w s) = JNull"
    by (simp add: clearTokenCache_def Let_def writeConfig_def record_event_def split: option.splits)
qed

lemma cached_load:
  "loadToken vault cached =
     (JStr ''tok-1'', cached\<lparr>cachedToken := JStr ''tok-1'', log := [Resolve, ConfigExists, ConfigRead]\<rparr>)"
  by (simp add: loadToken_def loadToken_file_def config_token_def js_lt_def record_event_def
      vault_def offline_def cached_def demo_parse_def)

theorem C9_memory_slot_never_expires_witness:
  "loadToken vault cached =
     (JStr ''tok-1'', cached\<lparr>cachedToken := JStr ''tok-1'', log := [Resolve, ConfigExists, ConfigRead]\<rparr>)
   \<and> loadToken offline
        (cached\<lparr>cachedToken := JStr ''tok-1'', log := [Resolve, ConfigExists, ConfigRead],
                now := 999999, configFile := None\<rparr>)
     = (JStr ''tok-1'',
        cached\<lparr>cachedToken := JStr ''tok-1'',
               log := [Resolve, ConfigExists, ConfigRead, Resolve],
               now := 999999, configFile := None\<rparr>)"
proof -
  have first: "loadToken vault cached =
     (JStr ''tok-1'', cached\<lparr>cachedToken := JStr ''tok-1'', log := [Resolve, ConfigExists, ConfigRead]\<rparr>)
     \<and> truthy (JStr ''tok-1'')"
    by (simp add: cached_load)
  from C9_memory_slot_never_expires
         [of cached vault "JStr ''tok-1''"
             "cached\<lparr>cachedToken := JStr ''tok-1'', log := [Resolve, ConfigExists, ConfigRead]\<rparr>"]
       first
  have "loadToken offline
          (cached\<lparr>cachedToken := JStr ''tok-1'', log := [Resolve, ConfigExists, ConfigRead]\<rparr>
             \<lparr>now := 999999, configFile := None\<rparr>)
        = (JStr ''tok-1'',
           record_event Resolve
             (cached\<lparr>cachedToken := JStr ''tok-1'', log := [Resolve, ConfigExists, ConfigRead]\<rparr>
                \<lparr>now := 999999, configFile := None\<rparr>))"
    by blast
  with first show ?thesis by (simp add: record_event_def cached_def)
qed


lemma refresh_log:
  "refreshAccessToken w s r = (t, s') \<Longrightarrow>
     api_calls (log s') = api_calls (log s) \<and> resolutions (log s') = resolutions (log s)
     \<and> secret_store_calls (log s) < secret_store_calls (log s')"
  by (auto simp: refreshAccessToken_def Let_def writeConfig_def record_event_def counts
      split: sum.splits option.splits curl_out.splits prod.splits if_splits)

lemma loadToken_op_log:
  "loadToken_op w s = (t, s') \<Longrightarrow>
     api_calls (log s') = api_calls (log s) \<and> resolutions (log s') = resolutions (log s)
     \<and> secret_store_calls (log s) < secret_store_calls (log s')"
  by (auto simp: loadToken_op_def Let_def record_event_def counts dest!: refresh_log
      split: sum.splits option.splits if_splits)

lemma loadToken_file_log:
  "loadToken_file w s = (t, s') \<Longrightarrow>
     api_calls (log s') = api_calls (log s) \<and> resolutions (log s') = resolutions (log s)"
  by (auto simp: loadToken_file_def Let_def record_event_def counts dest!: loadToken_op_log
      split: sum.splits option.splits if_splits)

lemma loadToken_log:
  "loadToken w s = (t, s') \<Longrightarrow>
     api_calls (log s') = api_calls (log s) \<and> resolutions (log s') = Suc (resolutions (log s))"
  by (auto simp: loadToken_def Let_def record_event_def counts dest!: loadToken_file_log
      split: sum.splits option.splits if_splits)

lemma clearTokenCache_log:
  "api_calls (log (clearTokenCache w s)) = api_calls (log s)
   \<and> resolutions (log (clearTokenCache w s)) = resolutions (log s)"
  by (auto simp: clearTokenCache_def Let_def writeConfig_def record_event_def counts
      split: option.splits)

text \<open>The secret store is consulted first for the refresh token.\<close>

lemma refresh_extends:
  "\<exists>evs. log (snd (refreshAccessToken w s r)) = log s @ evs"
  by (auto simp: refreshAccessToken_def Let_def writeConfig_def record_event_def
      split: sum.splits option.splits curl_out.splits prod.splits if_splits)


lemma loadToken_consistent:
  "consistent w s \<Longrightarrow> consistent w (snd (loadToken w s))"
proof (cases "truthy_str (env w ''CLIQ_ACCESS_TOKEN'')")
  case False
  then show ?thesis by (simp add: consistent_def)
next
  case True
  assume "consistent w s"
  with True show ?thesis
    by (cases "env w ''CLIQ_ACCESS_TOKEN''")
       (auto simp: consistent_def loadToken_def Let_def record_event_def)
qed

lemma clearTokenCache_consistent: "consistent w (clearTokenCache w s)"
  by (simp add: consistent_def clearTokenCache_def Let_def writeConfig_def record_event_def split: option.splits)

lemma consistent_initial: "cachedToken s = JNull \<Longrightarrow> consistent w s"
  by (simp add: consistent_def)

lemma consistent_record_event: "consistent w (record_event e s) = consistent w s"
  by (simp add: consistent_def record_event_def)

lemma apiRequest_consistent:
  assumes "consistent w s"
  shows "consistent w (snd (apiRequest w s ep m b))"
proof -
  obtain token s1 where first: "loadToken w s = (token, s1)" by (cases "loadToken w s")
  have c1: "consistent w s1"
    using loadToken_consistent [OF assms] first by simp
  have c4: "\<And>e. consistent w (snd (loadToken w (clearTokenCache w (record_event e s1))))"
    by (rule loadToken_consistent) (rule clearTokenCache_consistent)
  show ?thesis
    by (simp add: apiRequest_def Let_def first case_prod_beta consistent_record_event c1 c4
        split: sum.splits)
qed











subsection \<open>The dispatcher\<close>

lemma GetSubstitution_plain:
  "CHR ''$'' \<notin> set rep \<Longrightarrow> GetSubstitution matched preceding following rep = rep"
  by (induction matched preceding following rep rule: GetSubstitution.induct) auto

lemma js_replace_at:
  assumes "indexOf s pat = Some i" and "CHR ''$'' \<notin> set rep"
  shows "js_replace s pat rep = take i s @ rep @ drop (i + length pat) s"
  using assms by (simp add: js_replace_def GetSubstitution_plain)

lemma api_command_split:
  "api_command method url token bodyFlag =
     (''curl -s -X '' @ method @ '' '' @ [CHR 0x27] @ url @ [CHR 0x27] @ '' ''
       @ ''-H 'Authorization: '')
     @ auth_value token
     @ ([CHR 0x27] @ '' '' @ ''-H 'Content-Type: application/json' '' @ bodyFlag)"
  by (simp add: api_command_def)

lemma replace_middle:
  assumes "indexOf (P @ pat @ R) pat = Some (length P)" and "CHR ''$'' \<notin> set rep"
  shows "js_replace (P @ pat @ R) pat rep = P @ rep @ R"
  using assms by (simp add: js_replace_at)

lemma retry_command:
  assumes "indexOf (api_command method url token bodyFlag) (auth_value token)
             = Some (auth_offset method url)"
    and "CHR ''$'' \<notin> set (js_String newToken)"
  shows "js_replace (api_command method url token bodyFlag) (auth_value token) (auth_value newToken)
         = api_command method url newToken bodyFlag"
proof -
  have plain: "CHR ''$'' \<notin> set (auth_value newToken)"
    using assms(2) by (simp add: auth_value_def)
  from assms(1) show ?thesis
    unfolding api_command_split auth_offset_def
    by (rule replace_middle) (rule plain)
qed

lemma apiRequest_calls:
  "api_calls (log (snd (apiRequest w s ep m b))) \<le> api_calls (log s) + 2
   \<and> resolutions (log (snd (apiRequest w s ep m b))) \<le> resolutions (log s) + 2"
proof -
  obtain r s' where run: "apiRequest w s ep m b = (r, s')" by (cases "apiRequest w s ep m b")
  then have "api_calls (log s') \<le> api_calls (log s) + 2 \<and> resolutions (log s') \<le> resolutions (log s) + 2"
    apply (clarsimp simp: apiRequest_def Let_def split: prod.splits if_splits sum.splits)
    apply (auto simp: record_event_def counts clearTokenCache_log[unfolded counts] dest!: loadToken_log[unfolded counts])
    done
  with run show ?thesis by simp
qed

text \<open>
  C1 (as amended). Let the first answer to a call of \<^verbatim>\<open>apiRequest\<close> parse to a value whose
  \<^verbatim>\<open>code\<close> is \<^verbatim>\<open>INVALID_OAUTH\<close> or \<^verbatim>\<open>OAUTH_EXPIRED\<close>. Then the memory slot is emptied, an
  existing cache file is overwritten with the empty record if it can be written, and the
  credential is resolved once more (two resolutions in all). If that gives no token, the
  call returns ``Failed to refresh access token''. Otherwise exactly one more command is
  run, the first command with \<^verbatim>\<open>String.replace\<close> applied to the header value; it is the
  command of the same request with the new token, provided that the new token holds no
  dollar sign and that the first occurrence of the old header value in the command is the
  header itself. Whatever that second command returns is the result: a failure of the
  subprocess or of the parser is returned as its message, and every parsed value, an
  auth rejection included, is returned as data with no error. No call runs more than two
  requests.
\<close>

theorem C1_single_retry:
  assumes first: "loadToken w s = (token, s1)" "truthy token"
    and url: "url = (if prefix ''http'' endpoint then endpoint else BASE_URL w @ endpoint)"
    and cmd: "curlCmd = api_command method url token (body_flag w body)"
    and rejected: "curl_json w (log s1) curlCmd = Inr d" "auth_rejected d"
    and again: "loadToken w (clearTokenCache w (record_event (ApiCurl curlCmd) s1)) = (newToken, s4)"
    and retry: "retryCmd = js_replace curlCmd (auth_value token) (auth_value newToken)"
  shows
    "(\<not> truthy newToken \<longrightarrow>
        apiRequest w s endpoint method body = (failed ''Failed to refresh access token'', s4))
     \<and> (truthy newToken \<longrightarrow>
        snd (apiRequest w s endpoint method body) = record_event (ApiCurl retryCmd) s4
        \<and> (\<forall>msg. curl_json w (log s4) retryCmd = Inl msg \<longrightarrow>
              fst (apiRequest w s endpoint method body) = failed msg)
        \<and> (\<forall>d2. curl_json w (log s4) retryCmd = Inr d2 \<longrightarrow>
              fst (apiRequest w s endpoint method body) = \<lparr>data = d2, error = None\<rparr>))
     \<and> (CHR ''$'' \<notin> set (js_String newToken)
          \<and> indexOf curlCmd (auth_value token) = Some (auth_offset method url) \<longrightarrow>
        retryCmd = api_command method url newToken (body_flag w body))
     \<and> cachedToken (clearTokenCache w (record_event (ApiCurl curlCmd) s1)) = JNull
     \<and> configFile (clearTokenCache w (record_event (ApiCurl curlCmd) s1))
       = (if configFile s1 \<noteq> None \<and> fs_write_ok w then Some ''{}'' else configFile s1)
     \<and> resolutions (log s4) = resolutions (log s) + 2
     \<and> api_calls (log (snd (apiRequest w s endpoint method body))) \<le> api_calls (log s) + 2"
proof -
  have d: "d \<noteq> JNull" using rejected(2) by (auto simp: auth_rejected_def)
  have run: "apiRequest w s endpoint method body =
      (if \<not> truthy newToken then (failed ''Failed to refresh access token'', s4)
       else (case curl_json w (log s4) retryCmd of
               Inl msg \<Rightarrow> (failed msg, record_event (ApiCurl retryCmd) s4)
             | Inr d2 \<Rightarrow> (\<lparr>data = d2, error = None\<rparr>, record_event (ApiCurl retryCmd) s4)))"
    using first rejected again d
    by (simp add: apiRequest_def Let_def url [symmetric] cmd [symmetric] retry [symmetric])
  have r1: "resolutions (log s1) = Suc (resolutions (log s))"
    using loadToken_log [OF first(1)] by simp
  have r2: "resolutions (log s4)
      = Suc (resolutions (log (clearTokenCache w (record_event (ApiCurl curlCmd) s1))))"
    using loadToken_log [OF again] by simp
  have r3: "resolutions (log (clearTokenCache w (record_event (ApiCurl curlCmd) s1)))
      = resolutions (log s1)"
    using clearTokenCache_log [of w "record_event (ApiCurl curlCmd) s1"]
    by (simp add: record_event_def resolutions_def)
  show ?thesis
  proof (intro conjI impI allI)
    assume "\<not> truthy newToken"
    then show "apiRequest w s endpoint method body = (failed ''Failed to refresh access token'', s4)"
      by (simp add: run)
  next
    assume "truthy newToken"
    then show "snd (apiRequest w s endpoint method body) = record_event (ApiCurl retryCmd) s4"
      by (simp add: run split: sum.splits)
  next
    fix msg assume "truthy newToken" "curl_json w (log s4) retryCmd = Inl msg"
    then show "fst (apiRequest w s endpoint method body) = failed msg" by (simp add: run)
  next
    fix d2 assume "truthy newToken" "curl_json w (log s4) retryCmd = Inr d2"
    then show "fst (apiRequest w s endpoint method body) = \<lparr>data = d2, error = None\<rparr>"
      by (simp add: run)
  next
    assume "CHR ''$'' \<notin> set (js_String newToken)
          \<and> indexOf curlCmd (auth_value token) = Some (auth_offset method url)"
    then show "retryCmd = api_command method url newToken (body_flag w body)"
      unfolding retry cmd using retry_command by blast
  next
    show "cachedToken (clearTokenCache w (record_event (ApiCurl curlCmd) s1)) = JNull"
      by (simp add: clearTokenCache_def Let_def writeConfig_def record_event_def split: option.splits)
  next
    show "configFile (clearTokenCache w (record_event (ApiCurl curlCmd) s1))
       = (if configFile s1 \<noteq> None \<and> fs_write_ok w then Some ''{}'' else configFile s1)"
      by (auto simp: clearTokenCache_def Let_def writeConfig_def record_event_def split: option.splits)
  next
    show "resolutions (log s4) = resolutions (log s) + 2"
      using r1 r2 r3 by simp
  next
    show "api_calls (log (snd (apiRequest w s endpoint method body))) \<le> api_calls (log s) + 2"
      using apiRequest_calls by blast
  qed
qed


lemmas client_defs =
  loadToken_def loadToken_file_def loadToken_op_def refreshAccessToken_def clearTokenCache_def
  writeConfig_def record_event_def config_token_def js_lt_def find_value_def token_record_def
  apiRequest_def curl_json_def auth_rejected_def failed_def body_flag_def
  OP_ITEM_ID_def BASE_URL_def env_or_def Let_def

lemmas command_defs = op_command_def token_command_def api_command_def auth_value_def

lemmas world_defs =
  vault_def answering_def offline_def demo_parse_def demo_stringify_def
  fresh_def stale_def cached_def

text \<open>
  The claim as stated fails: with the override variable holding a token that the API
  rejects, both requests are answered with \<^verbatim>\<open>INVALID_OAUTH\<close>, and the second rejection comes
  back as data with no error; \<^verbatim>\<open>sendMessage\<close> reports it as the message sent.
\<close>

theorem C1_second_rejection_counterexample:
  "fst (apiRequest (answering 401 ''{\"code\":\"INVALID_OAUTH\"}'') fresh ''/channels'' ''GET'' None)
     = \<lparr>data = JObj [(''code'', JStr ''INVALID_OAUTH'')], error = None\<rparr>
   \<and> auth_rejected (JObj [(''code'', JStr ''INVALID_OAUTH'')])
   \<and> api_calls (log (snd (apiRequest (answering 401 ''{\"code\":\"INVALID_OAUTH\"}'') fresh
                            ''/channels'' ''GET'' None))) = 2
   \<and> fst (sendMessage (answering 401 ''{\"code\":\"INVALID_OAUTH\"}'') fresh
            \<lparr>text' = ''hi'', channelId = Some ''42'', channelName = None, chatId = None,
               userId = None\<rparr>)
     = \<lparr>message = JObj [(''code'', JStr ''INVALID_OAUTH'')], message_error = None\<rparr>"
  by (simp add: sendMessage_def client_defs world_defs api_calls_def)

lemma record_event_fields:
  "cachedToken (record_event e s) = cachedToken s"
  "configFile (record_event e s) = configFile s"
  "now (record_event e s) = now s"
  "last (log (record_event e s)) = e"
  by (simp_all add: record_event_def)

theorem C1_single_retry_witness:
  "fst (apiRequest vault stale ''/channels'' ''GET'' None)
     = \<lparr>data = JObj [(''channels'',
                 JArr [JObj [(''id'', JStr ''1''), (''name'', JStr ''General''),
                             (''unique_name'', JStr ''general'')]])],
        error = None\<rparr>
   \<and> cachedToken (snd (apiRequest vault stale ''/channels'' ''GET'' None)) = JStr ''tok-2''
   \<and> last (log (snd (apiRequest vault stale ''/channels'' ''GET'' None)))
     = ApiCurl (api_command ''GET'' ''https://cliq.zoho.com/api/v2/channels'' (JStr ''tok-2'') [])
   \<and> api_calls (log (snd (apiRequest vault stale ''/channels'' ''GET'' None))) \<le> 2"
proof -
  let ?url = "''https://cliq.zoho.com/api/v2/channels''"
  let ?cmd = "api_command ''GET'' ?url (JStr ''tok-1'') (body_flag vault None)"
  let ?s1 = "record_event Resolve stale"
  let ?cleared = "clearTokenCache vault (record_event (ApiCurl ?cmd) ?s1)"
  let ?s4 = "snd (loadToken vault ?cleared)"
  let ?retry = "js_replace ?cmd (auth_value (JStr ''tok-1'')) (auth_value (JStr ''tok-2''))"
  let ?listing = "JObj [(''channels'',
                 JArr [JObj [(''id'', JStr ''1''), (''name'', JStr ''General''),
                             (''unique_name'', JStr ''general'')]])]"
  have first: "loadToken vault stale = (JStr ''tok-1'', ?s1)"
    by (simp add: loadToken_def record_event_def stale_def)
  have truthy1: "truthy (JStr ''tok-1'')" by simp
  have url: "?url = (if prefix ''http'' ''/channels'' then ''/channels''
                      else BASE_URL vault @ ''/channels'')"
    by (simp add: BASE_URL_def env_or_def vault_def offline_def)
  have rejected: "curl_json vault (log ?s1) ?cmd = Inr (JObj [(''code'', JStr ''INVALID_OAUTH'')])"
    by (simp add: curl_json_def body_flag_def vault_def offline_def demo_parse_def command_defs)
  have code: "auth_rejected (JObj [(''code'', JStr ''INVALID_OAUTH'')])"
    by (simp add: auth_rejected_def)
  have new: "fst (loadToken vault ?cleared) = JStr ''tok-2''"
    by (simp add: client_defs world_defs command_defs)
  then have again: "loadToken vault ?cleared = (JStr ''tok-2'', ?s4)"
    by (simp add: prod_eq_iff)
  have truthy2: "truthy (JStr ''tok-2'')" by simp
  have place: "CHR ''$'' \<notin> set (js_String (JStr ''tok-2''))
      \<and> indexOf ?cmd (auth_value (JStr ''tok-1'')) = Some (auth_offset ''GET'' ?url)"
    by (simp add: body_flag_def command_defs auth_offset_def)
  note inst = C1_single_retry [OF first truthy1 url refl rejected code again refl]
  have retry: "?retry = api_command ''GET'' ?url (JStr ''tok-2'') (body_flag vault None)"
    using inst [THEN conjunct2, THEN conjunct2, THEN conjunct1, THEN mp, OF place] .
  have answer: "curl_json vault (log ?s4) ?retry = Inr ?listing"
    unfolding retry
    by (simp add: curl_json_def body_flag_def vault_def offline_def demo_parse_def command_defs)
  have final: "snd (apiRequest vault stale ''/channels'' ''GET'' None)
      = record_event (ApiCurl ?retry) ?s4"
    and result: "fst (apiRequest vault stale ''/channels'' ''GET'' None)
      = \<lparr>data = ?listing, error = None\<rparr>"
    using inst [THEN conjunct2, THEN conjunct1, THEN mp, OF truthy2] answer by blast+
  have bound: "api_calls (log (snd (apiRequest vault stale ''/channels'' ''GET'' None)))
      \<le> api_calls (log stale) + 2"
    using inst by blast
  have slot: "cachedToken ?s4 = JStr ''tok-2''"
    using again truthy2 by (rule loadToken_cached)
  have c2: "cachedToken (snd (apiRequest vault stale ''/channels'' ''GET'' None)) = JStr ''tok-2''"
    by (simp add: final record_event_fields slot)
  have c3: "last (log (snd (apiRequest vault stale ''/channels'' ''GET'' None)))
      = ApiCurl (api_command ''GET'' ?url (JStr ''tok-2'') [])"
    using retry by (simp add: final record_event_fields body_flag_def)
  have "log stale = []" by (simp add: stale_def)
  with bound have c4: "api_calls (log (snd (apiRequest vault stale ''/channels'' ''GET'' None))) \<le> 2"
    by (simp add: api_calls_def)
  from result c2 c3 c4 show ?thesis by blast
qed

subsection \<open>Status codes\<close>

lemma with_status_fields [simp]:
  "env (with_status f w) = env w"
  "op_cli (with_status f w) = op_cli w"
  "fs_read_ok (with_status f w) = fs_read_ok w"
  "fs_write_ok (with_status f w) = fs_write_ok w"
  "JSON_parse (with_status f w) = JSON_parse w"
  "JSON_stringify (with_status f w) = JSON_stringify w"
  "StringToNumber (with_status f w) = StringToNumber w"
  "toISOString (with_status f w) = toISOString w"
  by (simp_all add: with_status_def)

lemma with_status_ToNumber [simp]: "ToNumber (with_status f w) v = ToNumber w v"
  by (cases v) simp_all

lemma with_status_constants [simp]:
  "OP_ITEM_ID (with_status f w) = OP_ITEM_ID w"
  "BASE_URL (with_status f w) = BASE_URL w"
  "body_flag (with_status f w) b = body_flag w b"
  "token_record (with_status f w) t tok e = token_record w t tok e"
  "config_token (with_status f w) t c = config_token w t c"
  "writeConfig (with_status f w) txt s = writeConfig w txt s"
  by (simp_all add: OP_ITEM_ID_def BASE_URL_def env_or_def body_flag_def token_record_def
      config_token_def js_lt_def writeConfig_def
      cong: option.case_cong prod.case_cong if_cong)

lemma with_status_curl_json [simp]: "curl_json (with_status f w) h c = curl_json w h c"
  by (simp add: curl_json_def with_status_def split: curl_out.splits)

lemma with_status_curl:
  "(case curl_cli (with_status f w) h c of CurlFailed m \<Rightarrow> A m | Response st b \<Rightarrow> B b)
   = (case curl_cli w h c of CurlFailed m \<Rightarrow> A m | Response st b \<Rightarrow> B b)"
  by (simp add: with_status_def split: curl_out.splits)

lemma with_status_refresh [simp]:
  "refreshAccessToken (with_status f w) s r = refreshAccessToken w s r"
  by (simp add: refreshAccessToken_def with_status_curl Let_def
      cong: sum.case_cong option.case_cong prod.case_cong curl_out.case_cong if_cong)

lemma with_status_loadToken [simp]: "loadToken (with_status f w) s = loadToken w s"
  by (simp add: loadToken_def loadToken_file_def loadToken_op_def Let_def
      cong: option.case_cong sum.case_cong if_cong)

lemma with_status_clear [simp]: "clearTokenCache (with_status f w) s = clearTokenCache w s"
  by (simp add: clearTokenCache_def Let_def cong: option.case_cong)

lemma with_status_apiRequest [simp]:
  "apiRequest (with_status f w) s ep m b = apiRequest w s ep m b"
  by (simp add: apiRequest_def Let_def cong: prod.case_cong sum.case_cong if_cong)

lemma with_status_operations:
  "listChannels (with_status f w) s = listChannels w s"
  "sendMessage (with_status f w) s inp = sendMessage w s inp"
  "replyToMessage (with_status f w) s rin = replyToMessage w s rin"
  by (simp_all add: listChannels_def sendMessage_def replyToMessage_def)

lemma http_error_is_http_error: "is_http_error (Some (http_error w status d))"
  by (simp add: is_http_error_def http_error_def)

lemma wh_listChannels_status:
  assumes "getOAuthToken w s = (tok, s1)" and "truthy tok"
    and "curlJson w s1 (wh_BASE_URL @ ''/channels'') ''GET''
           [(''Authorization'', auth_value tok), (''Content-Type'', ''application/json'')] None
         = (Inr (d, status), s2)"
  shows "(status < 200 \<or> 300 \<le> status \<longrightarrow>
            wh_listChannels w s
            = (Inr \<lparr>channels = [], channels_error = Some (http_error w status d)\<rparr>, s2))
         \<and> (200 \<le> status \<and> status < 300 \<longrightarrow>
            (\<forall>r. fst (wh_listChannels w s) = Inr r \<longrightarrow> \<not> is_http_error (channels_error r)))"
  using assms
  by (auto simp: wh_listChannels_def is_http_error_def split: option.splits json.splits)

lemma wh_sendMessage_status:
  assumes "wh_text i \<noteq> []" and "getZapikey w s = (key, s1)" and "truthy key"
    and "curlJson w s1
           (wh_BASE_URL @ ''/bots/'' @ BOT_NAME w @ ''/incoming?zapikey='' @ js_String key) ''POST''
           [(''Content-Type'', ''application/json'')]
           (Some (JObj [(''text'', JStr (wh_text i)),
                        (''channel'', JStr (if truthy_str (wh_channelName i)
                                             then interp (wh_channelName i)
                                             else DEFAULT_CHANNEL w))]))
         = (Inr (d, status), s2)"
  shows "(status < 200 \<or> 300 \<le> status \<longrightarrow>
            wh_sendMessage w s i
            = (Inr \<lparr>success = False, send_error = Some (http_error w status d)\<rparr>, s2))
         \<and> (200 \<le> status \<and> status < 300 \<longrightarrow>
            wh_sendMessage w s i = (Inr \<lparr>success = True, send_error = None\<rparr>, s2))"
  using assms by (auto simp: wh_sendMessage_def Let_def)

text \<open>
  C2 (as amended). In the webhook client, \<^verbatim>\<open>listChannels\<close> and \<^verbatim>\<open>sendMessage\<close> classify the
  answer by its status code: outside \<open>[200, 300)\<close> the result is the failure
  \<^verbatim>\<open>HTTP <status>: <body>\<close>, the body being \<^verbatim>\<open>JSON.stringify\<close> of the parsed body (of \<^verbatim>\<open>null\<close>
  when the body is empty or is not JSON); inside \<open>[200, 300)\<close> no result carries such a
  failure, and \<^verbatim>\<open>sendMessage\<close> succeeds. In the OAuth client the status code is not read:
  the dispatcher and the three operations return the same result and leave the same
  state whatever status codes the server sends with the same bodies.
\<close>

theorem C2_status_classification:
  "(getOAuthToken w s = (tok, s1) \<and> truthy tok
      \<and> curlJson w s1 (wh_BASE_URL @ ''/channels'') ''GET''
            [(''Authorization'', auth_value tok), (''Content-Type'', ''application/json'')] None
          = (Inr (d, status), s2) \<longrightarrow>
      (status < 200 \<or> 300 \<le> status \<longrightarrow>
         wh_listChannels w s
         = (Inr \<lparr>channels = [], channels_error = Some (http_error w status d)\<rparr>, s2))
      \<and> (200 \<le> status \<and> status < 300 \<longrightarrow>
         (\<forall>r. fst (wh_listChannels w s) = Inr r \<longrightarrow> \<not> is_http_error (channels_error r))))
   \<and> (wh_text i \<noteq> [] \<and> getZapikey w s = (key, t1) \<and> truthy key
      \<and> curlJson w t1
            (wh_BASE_URL @ ''/bots/'' @ BOT_NAME w @ ''/incoming?zapikey='' @ js_String key) ''POST''
            [(''Content-Type'', ''application/json'')]
            (Some (JObj [(''text'', JStr (wh_text i)),
                         (''channel'', JStr (if truthy_str (wh_channelName i)
                                              then interp (wh_channelName i)
                                              else DEFAULT_CHANNEL w))]))
          = (Inr (d', status'), t2) \<longrightarrow>
      (status' < 200 \<or> 300 \<le> status' \<longrightarrow>
         wh_sendMessage w s i
         = (Inr \<lparr>success = False, send_error = Some (http_error w status' d')\<rparr>, t2))
      \<and> (200 \<le> status' \<and> status' < 300 \<longrightarrow>
         wh_sendMessage w s i = (Inr \<lparr>success = True, send_error = None\<rparr>, t2)))
   \<and> is_http_error (Some (http_error w status d))
   \<and> apiRequest (with_status f w) c ep m b = apiRequest w c ep m b
   \<and> listChannels (with_status f w) c = listChannels w c
   \<and> sendMessage (with_status f w) c inp = sendMessage w c inp
   \<and> replyToMessage (with_status f w) c rin = replyToMessage w c rin"
proof (intro conjI impI)
  assume "getOAuthToken w s = (tok, s1) \<and> truthy tok
      \<and> curlJson w s1 (wh_BASE_URL @ ''/channels'') ''GET''
            [(''Authorization'', auth_value tok), (''Content-Type'', ''application/json'')] None
          = (Inr (d, status), s2)"
  then have both: "(status < 200 \<or> 300 \<le> status \<longrightarrow>
         wh_listChannels w s
         = (Inr \<lparr>channels = [], channels_error = Some (http_error w status d)\<rparr>, s2))
      \<and> (200 \<le> status \<and> status < 300 \<longrightarrow>
         (\<forall>r. fst (wh_listChannels w s) = Inr r \<longrightarrow> \<not> is_http_error (channels_error r)))"
    using wh_listChannels_status by blast
  {
    assume "status < 200 \<or> 300 \<le> status"
    with both show "wh_listChannels w s
         = (Inr \<lparr>channels = [], channels_error = Some (http_error w status d)\<rparr>, s2)"
      by blast
  }
  {
    assume "200 \<le> status \<and> status < 300"
    with both show "\<forall>r. fst (wh_listChannels w s) = Inr r \<longrightarrow> \<not> is_http_error (channels_error r)"
      by blast
  }
next
  assume "wh_text i \<noteq> [] \<and> getZapikey w s = (key, t1) \<and> truthy key
      \<and> curlJson w t1
            (wh_BASE_URL @ ''/bots/'' @ BOT_NAME w @ ''/incoming?zapikey='' @ js_String key) ''POST''
            [(''Content-Type'', ''application/json'')]
            (Some (JObj [(''text'', JStr (wh_text i)),
                         (''channel'', JStr (if truthy_str (wh_channelName i)
                                              then interp (wh_channelName i)
                                              else DEFAULT_CHANNEL w))]))
          = (Inr (d', status'), t2)"
  then have both: "(status' < 200 \<or> 300 \<le> status' \<longrightarrow>
         wh_sendMessage w s i
         = (Inr \<lparr>success = False, send_error = Some (http_error w status' d')\<rparr>, t2))
      \<and> (200 \<le> status' \<and> status' < 300 \<longrightarrow>
         wh_sendMessage w s i = (Inr \<lparr>success = True, send_error = None\<rparr>, t2))"
    using wh_sendMessage_status by blast
  {
    assume "status' < 200 \<or> 300 \<le> status'"
    with both show "wh_sendMessage w s i
         = (Inr \<lparr>success = False, send_error = Some (http_error w status' d')\<rparr>, t2)"
      by blast
  }
  {
    assume "200 \<le> status' \<and> status' < 300"
    with both show "wh_sendMessage w s i = (Inr \<lparr>success = True, send_error = None\<rparr>, t2)"
      by blast
  }
next
  show "is_http_error (Some (http_error w status d))"
    by (rule http_error_is_http_error)
next
  show "apiRequest (with_status f w) c ep m b = apiRequest w c ep m b"
    by (rule with_status_apiRequest)
next
  show "listChannels (with_status f w) c = listChannels w c"
    "sendMessage (with_status f w) c inp = sendMessage w c inp"
    "replyToMessage (with_status f w) c rin = replyToMessage w c rin"
    by (rule with_status_operations)+
qed

text \<open>
  The claim as stated fails in the OAuth client: when the server answers every request
  with status 500 and a JSON body, \<^verbatim>\<open>sendMessage\<close> and \<^verbatim>\<open>replyToMessage\<close> return that body as
  their success value, and \<^verbatim>\<open>listChannels\<close> fails with a message that carries neither the
  status nor the body.
\<close>

theorem C2_status_ignored_counterexample:
  "curl_cli (answering 500 ''{\"message\":\"Internal Server Error\"}'') [] []
     = Response 500 ''{\"message\":\"Internal Server Error\"}''
   \<and> fst (sendMessage (answering 500 ''{\"message\":\"Internal Server Error\"}'') fresh
            \<lparr>text' = ''hi'', channelId = Some ''42'', channelName = None, chatId = None,
               userId = None\<rparr>)
     = \<lparr>message = JObj [(''message'', JStr ''Internal Server Error'')], message_error = None\<rparr>
   \<and> fst (replyToMessage (answering 500 ''{\"message\":\"Internal Server Error\"}'') fresh
            \<lparr>messageId = ''m1'', replyText = ''hi''\<rparr>)
     = \<lparr>reply = JObj [(''message'', JStr ''Internal Server Error'')], reply_error = None\<rparr>
   \<and> fst (listChannels (answering 500 ''{\"message\":\"Internal Server Error\"}'') fresh)
     = Inr \<lparr>channels = [], channels_error = Some ''Unexpected response format''\<rparr>"
  by (simp add: sendMessage_def replyToMessage_def listChannels_def client_defs world_defs)


lemmas webhook_defs =
  getOAuthToken_def getZapikey_def opGet_def curlJson_def wh_record_event_def before_expiry_def
  expiry_after_def header_flags_def wh_command_def http_error_def body_flag_def
  wh_BASE_URL_def BOT_NAME_def DEFAULT_CHANNEL_def WEBHOOK_OP_ITEM_def OAUTH_OP_ITEM_def
  env_or_def Let_def wh_fresh_def wh_ready_def

theorem C2_status_classification_witness:
  "fst (wh_listChannels (answering 500 ''{\"message\":\"Internal Server Error\"}'') wh_ready)
     = Inr \<lparr>channels = [],
            channels_error = Some ''HTTP 500: {\"message\":\"Internal Server Error\"}''\<rparr>
   \<and> fst (wh_sendMessage (answering 500 ''{\"message\":\"Internal Server Error\"}'') wh_ready
            \<lparr>wh_text = ''hi'', wh_channelName = None, wh_chatId = None, wh_userId = None\<rparr>)
     = Inr \<lparr>success = False,
            send_error = Some ''HTTP 500: {\"message\":\"Internal Server Error\"}''\<rparr>
   \<and> fst (wh_sendMessage (answering 200 ''{}'') wh_ready
            \<lparr>wh_text = ''hi'', wh_channelName = None, wh_chatId = None, wh_userId = None\<rparr>)
     = Inr \<lparr>success = True, send_error = None\<rparr>
   \<and> sendMessage (with_status (\<lambda>h c st. 200) (answering 500 ''{\"message\":\"Internal Server Error\"}''))
        fresh
        \<lparr>text' = ''hi'', channelId = Some ''42'', channelName = None, chatId = None, userId = None\<rparr>
     = sendMessage (answering 500 ''{\"message\":\"Internal Server Error\"}'') fresh
        \<lparr>text' = ''hi'', channelId = Some ''42'', channelName = None, chatId = None, userId = None\<rparr>"
proof -
  let ?W = "answering 500 ''{\"message\":\"Internal Server Error\"}''"
  let ?V = "answering 200 ''{}''"
  let ?d = "JObj [(''message'', JStr ''Internal Server Error'')]"
  let ?i = "\<lparr>wh_text = ''hi'', wh_channelName = None, wh_chatId = None, wh_userId = None\<rparr>"
  let ?s1 = "wh_record_event Resolve wh_ready"
  let ?list = "curlJson ?W ?s1 (wh_BASE_URL @ ''/channels'') ''GET''
            [(''Authorization'', auth_value (JStr ''tok-1'')), (''Content-Type'', ''application/json'')]
            None"
  let ?post = "\<lambda>w. curlJson w ?s1
            (wh_BASE_URL @ ''/bots/'' @ BOT_NAME w @ ''/incoming?zapikey='' @ js_String (JStr ''zk-1''))
            ''POST'' [(''Content-Type'', ''application/json'')]
            (Some (JObj [(''text'', JStr (wh_text ?i)),
                         (''channel'', JStr (if truthy_str (wh_channelName ?i)
                                              then interp (wh_channelName ?i)
                                              else DEFAULT_CHANNEL w))]))"
  have list: "getOAuthToken ?W wh_ready = (JStr ''tok-1'', ?s1) \<and> truthy (JStr ''tok-1'')
      \<and> ?list = (Inr (?d, 500), snd ?list)"
    by (simp add: prod_eq_iff webhook_defs answering_def offline_def demo_parse_def)
  have post500: "wh_text ?i \<noteq> [] \<and> getZapikey ?W wh_ready = (JStr ''zk-1'', ?s1)
      \<and> truthy (JStr ''zk-1'') \<and> ?post ?W = (Inr (?d, 500), snd (?post ?W))"
    by (simp add: prod_eq_iff webhook_defs answering_def offline_def demo_parse_def)
  have post200: "wh_text ?i \<noteq> [] \<and> getZapikey ?V wh_ready = (JStr ''zk-1'', ?s1)
      \<and> truthy (JStr ''zk-1'') \<and> ?post ?V = (Inr (JObj [], 200), snd (?post ?V))"
    by (simp add: prod_eq_iff webhook_defs answering_def offline_def demo_parse_def)
  have out: "(500::nat) < 200 \<or> (300::nat) \<le> 500" and inside: "(200::nat) \<le> 200 \<and> (200::nat) < 300"
    by simp_all
  have digits: "dec 500 = ''500''" by code_simp
  have text500: "http_error ?W 500 ?d = ''HTTP 500: {\"message\":\"Internal Server Error\"}''"
    by (simp add: http_error_def answering_def offline_def demo_stringify_def digits)
  have c1: "wh_listChannels ?W wh_ready
      = (Inr \<lparr>channels = [], channels_error = Some (http_error ?W 500 ?d)\<rparr>, snd ?list)"
    using C2_status_classification [where w = ?W and s = wh_ready, THEN conjunct1, THEN mp, OF list,
        THEN conjunct1, THEN mp, OF out] .
  have c2: "wh_sendMessage ?W wh_ready ?i
      = (Inr \<lparr>success = False, send_error = Some (http_error ?W 500 ?d)\<rparr>, snd (?post ?W))"
    using C2_status_classification [where w = ?W and s = wh_ready and i = ?i,
        THEN conjunct2, THEN conjunct1, THEN mp, OF post500, THEN conjunct1, THEN mp, OF out] .
  have c3: "wh_sendMessage ?V wh_ready ?i
      = (Inr \<lparr>success = True, send_error = None\<rparr>, snd (?post ?V))"
    using C2_status_classification [where w = ?V and s = wh_ready and i = ?i,
        THEN conjunct2, THEN conjunct1, THEN mp, OF post200, THEN conjunct2, THEN mp, OF inside] .
  have c4: "sendMessage (with_status (\<lambda>h c st. 200) ?W) fresh
        \<lparr>text' = ''hi'', channelId = Some ''42'', channelName = None, chatId = None, userId = None\<rparr>
     = sendMessage ?W fresh
        \<lparr>text' = ''hi'', channelId = Some ''42'', channelName = None, chatId = None, userId = None\<rparr>"
    using C2_status_classification [where w = ?W and f = "\<lambda>h c st. 200" and c = fresh]
    by blast
  show ?thesis
    unfolding c1 c2 c3 c4 text500 by simp
qed

subsection \<open>Destinations\<close>

lemma refresh_keeps_log:
  "e \<in> set (log s) \<Longrightarrow> e \<in> set (log (snd (refreshAccessToken w s r)))"
  using refresh_extends [of w s r] by auto

lemma loadToken_op_keeps_log:
  "e \<in> set (log s) \<Longrightarrow> e \<in> set (log (snd (loadToken_op w s)))"
  by (auto simp: loadToken_op_def Let_def record_event_def split: sum.splits option.splits
      intro!: refresh_keeps_log)

lemma loadToken_file_keeps_log:
  "e \<in> set (log s) \<Longrightarrow> e \<in> set (log (snd (loadToken_file w s)))"
  by (auto simp: loadToken_file_def Let_def record_event_def split: sum.splits option.splits
      intro!: loadToken_op_keeps_log)

lemma loadToken_keeps_log:
  "e \<in> set (log s) \<Longrightarrow> e \<in> set (log (snd (loadToken w s)))"
  by (auto simp: loadToken_def Let_def record_event_def split: option.splits
      intro!: loadToken_file_keeps_log)

lemma clearTokenCache_keeps_log:
  "e \<in> set (log s) \<Longrightarrow> e \<in> set (log (clearTokenCache w s))"
  by (auto simp: clearTokenCache_def Let_def writeConfig_def record_event_def split: option.splits)

lemma apiRequest_first_request:
  assumes "loadToken w s = (tok, s1)" and "truthy tok"
  shows "ApiCurl (api_command m (if prefix ''http'' ep then ep else BASE_URL w @ ep) tok (body_flag w b))
           \<in> set (log (snd (apiRequest w s ep m b)))"
proof -
  let ?cmd = "api_command m (if prefix ''http'' ep then ep else BASE_URL w @ ep) tok (body_flag w b)"
  let ?s2 = "record_event (ApiCurl ?cmd) s1"
  have here: "ApiCurl ?cmd \<in> set (log ?s2)" by (simp add: record_event_def)
  have later: "ApiCurl ?cmd \<in> set (log (snd (loadToken w (clearTokenCache w ?s2))))"
    using here by (intro loadToken_keeps_log clearTokenCache_keeps_log)
  show ?thesis
    using assms here later
    by (auto simp: apiRequest_def Let_def record_event_def split: sum.splits prod.splits)
qed

lemma spec_post_message_request:
  assumes "loadToken w s = (tok, s1)" and "truthy tok"
  shows "ApiCurl (api_command ''POST'' (BASE_URL w @ CHR ''/'' # rest) tok
                   (body_flag w (Some (JObj [(''text'', JStr msg), (''sync_message'', JBool True)]))))
           \<in> set (log (snd (spec_post_message w s (CHR ''/'' # rest) msg)))"
proof -
  let ?payload = "Some (JObj [(''text'', JStr msg), (''sync_message'', JBool True)])"
  obtain r s' where run: "apiRequest w s (CHR ''/'' # rest) ''POST'' ?payload = (r, s')"
    by (cases "apiRequest w s (CHR ''/'' # rest) ''POST'' ?payload")
  with apiRequest_first_request [OF assms, of "''POST''" "CHR ''/'' # rest" ?payload]
  have "ApiCurl (api_command ''POST'' (BASE_URL w @ CHR ''/'' # rest) tok (body_flag w ?payload))
          \<in> set (log s')"
    by simp
  with run show ?thesis by (simp add: spec_post_message_def)
qed

lemma sendMessage_channelId:
  "text' i \<noteq> [] \<Longrightarrow> truthy_str (channelId i) \<Longrightarrow>
     sendMessage w s i
     = spec_post_message w s (''/channels/'' @ interp (channelId i) @ ''/messages'') (text' i)"
  by (simp add: sendMessage_def spec_post_message_def)

lemma sendMessage_channelName:
  "text' i \<noteq> [] \<Longrightarrow> \<not> truthy_str (channelId i) \<Longrightarrow> truthy_str (channelName i) \<Longrightarrow>
     sendMessage w s i
     = spec_post_message w s (''/channelsbyname/'' @ interp (channelName i) @ ''/message'') (text' i)"
  by (simp add: sendMessage_def spec_post_message_def)

lemma sendMessage_chatId:
  "text' i \<noteq> [] \<Longrightarrow> \<not> truthy_str (channelId i) \<Longrightarrow> \<not> truthy_str (channelName i) \<Longrightarrow>
   truthy_str (chatId i) \<Longrightarrow>
     sendMessage w s i
     = spec_post_message w s (''/chats/'' @ interp (chatId i) @ ''/messages'') (text' i)"
  by (simp add: sendMessage_def spec_post_message_def)

lemma sendMessage_userId:
  "text' i \<noteq> [] \<Longrightarrow> \<not> truthy_str (channelId i) \<Longrightarrow> \<not> truthy_str (channelName i) \<Longrightarrow>
   \<not> truthy_str (chatId i) \<Longrightarrow> truthy_str (userId i) \<Longrightarrow>
     sendMessage w s i
     = spec_post_message w s (''/users/'' @ interp (userId i) @ ''/messages'') (text' i)"
  by (simp add: sendMessage_def spec_post_message_def)






text \<open>
  C10. With a text and more than one selector present, \<^verbatim>\<open>sendMessage\<close> in the OAuth client
  does not reject the input: it posts to the endpoint of the first present selector in
  the order \<^verbatim>\<open>channelId\<close>, \<^verbatim>\<open>channelName\<close>, \<^verbatim>\<open>chatId\<close>, \<^verbatim>\<open>userId\<close>, and the result and the
  state are those of the same call without the selectors of lower priority.
\<close>

theorem C10_selector_priority:
  "(text' i \<noteq> [] \<and> channelId i = Some v \<and> v \<noteq> [] \<longrightarrow>
      sendMessage w s i = spec_post_message w s (''/channels/'' @ v @ ''/messages'') (text' i)
      \<and> sendMessage w s i = sendMessage w s (i\<lparr>channelName := None, chatId := None, userId := None\<rparr>))
   \<and> (text' i \<noteq> [] \<and> \<not> truthy_str (channelId i) \<and> channelName i = Some v \<and> v \<noteq> [] \<longrightarrow>
      sendMessage w s i = spec_post_message w s (''/channelsbyname/'' @ v @ ''/message'') (text' i)
      \<and> sendMessage w s i = sendMessage w s (i\<lparr>chatId := None, userId := None\<rparr>))
   \<and> (text' i \<noteq> [] \<and> \<not> truthy_str (channelId i) \<and> \<not> truthy_str (channelName i)
      \<and> chatId i = Some v \<and> v \<noteq> [] \<longrightarrow>
      sendMessage w s i = spec_post_message w s (''/chats/'' @ v @ ''/messages'') (text' i)
      \<and> sendMessage w s i = sendMessage w s (i\<lparr>userId := None\<rparr>))
   \<and> (text' i \<noteq> [] \<and> \<not> truthy_str (channelId i) \<and> \<not> truthy_str (channelName i)
      \<and> \<not> truthy_str (chatId i) \<and> userId i = Some v \<and> v \<noteq> [] \<longrightarrow>
      sendMessage w s i = spec_post_message w s (''/users/'' @ v @ ''/messages'') (text' i))"
proof (intro conjI impI)
  assume a: "text' i \<noteq> [] \<and> channelId i = Some v \<and> v \<noteq> []"
  then show "sendMessage w s i = spec_post_message w s (''/channels/'' @ v @ ''/messages'') (text' i)"
    using sendMessage_channelId [of i w s] by simp
  from a show "sendMessage w s i
      = sendMessage w s (i\<lparr>channelName := None, chatId := None, userId := None\<rparr>)"
    using sendMessage_channelId [of i w s]
      sendMessage_channelId [of "i\<lparr>channelName := None, chatId := None, userId := None\<rparr>" w s]
    by simp
next
  assume a: "text' i \<noteq> [] \<and> \<not> truthy_str (channelId i) \<and> channelName i = Some v \<and> v \<noteq> []"
  then show "sendMessage w s i
      = spec_post_message w s (''/channelsbyname/'' @ v @ ''/message'') (text' i)"
    using sendMessage_channelName [of i w s] by simp
  from a show "sendMessage w s i = sendMessage w s (i\<lparr>chatId := None, userId := None\<rparr>)"
    using sendMessage_channelName [of i w s]
      sendMessage_channelName [of "i\<lparr>chatId := None, userId := None\<rparr>" w s]
    by simp
next
  assume a: "text' i \<noteq> [] \<and> \<not> truthy_str (channelId i) \<and> \<not> truthy_str (channelName i)
      \<and> chatId i = Some v \<and> v \<noteq> []"
  then show "sendMessage w s i = spec_post_message w s (''/chats/'' @ v @ ''/messages'') (text' i)"
    using sendMessage_chatId [of i w s] by simp
  from a show "sendMessage w s i = sendMessage w s (i\<lparr>userId := None\<rparr>)"
    using sendMessage_chatId [of i w s] sendMessage_chatId [of "i\<lparr>userId := None\<rparr>" w s]
    by simp
next
  assume "text' i \<noteq> [] \<and> \<not> truthy_str (channelId i) \<and> \<not> truthy_str (channelName i)
      \<and> \<not> truthy_str (chatId i) \<and> userId i = Some v \<and> v \<noteq> []"
  then show "sendMessage w s i = spec_post_message w s (''/users/'' @ v @ ''/messages'') (text' i)"
    using sendMessage_userId [of i w s] by simp
qed


lemma override_token:
  "loadToken (answering st body) fresh
     = (JStr ''tok-1'', (record_event Resolve fresh)\<lparr>cachedToken := JStr ''tok-1''\<rparr>)
   \<and> truthy (JStr ''tok-1'')"
  by (simp add: loadToken_def Let_def record_event_def answering_def offline_def fresh_def)

lemma override_request:
  "BASE_URL (answering st body) = ''https://cliq.zoho.com/api/v2''"
  "body_flag (answering st body) (Some (JObj [(''text'', JStr ''hi''), (''sync_message'', JBool True)]))
     = ''-d '' @ [CHR 0x27] @ ''{\"text\":\"hi\",\"sync_message\":true}'' @ [CHR 0x27]"
  by (simp_all add: BASE_URL_def env_or_def body_flag_def shell_quote_def answering_def offline_def
      demo_stringify_def)


theorem C10_selector_priority_witness:
  "sendMessage (answering 200 ''{}'') fresh
     \<lparr>text' = ''hi'', channelId = Some ''42'', channelName = None, chatId = None, userId = Some ''7''\<rparr>
   = sendMessage (answering 200 ''{}'') fresh
     \<lparr>text' = ''hi'', channelId = Some ''42'', channelName = None, chatId = None, userId = None\<rparr>
   \<and> ApiCurl (api_command ''POST'' ''https://cliq.zoho.com/api/v2/channels/42/messages'' (JStr ''tok-1'')
             (''-d '' @ [CHR 0x27] @ ''{\"text\":\"hi\",\"sync_message\":true}'' @ [CHR 0x27]))
     \<in> set (log (snd (sendMessage (answering 200 ''{}'') fresh
                         \<lparr>text' = ''hi'', channelId = Some ''42'', channelName = None,
                            chatId = None, userId = Some ''7''\<rparr>)))
   \<and> sendMessage (answering 200 ''{}'') fresh
     \<lparr>text' = ''hi'', channelId = None, channelName = Some ''general'', chatId = Some ''c9'',
        userId = Some ''7''\<rparr>
   = sendMessage (answering 200 ''{}'') fresh
     \<lparr>text' = ''hi'', channelId = None, channelName = Some ''general'', chatId = None,
        userId = None\<rparr>"
proof -
  let ?W = "answering 200 ''{}''"
  let ?i = "\<lparr>text' = ''hi'', channelId = Some ''42'', channelName = None, chatId = None,
              userId = Some ''7''\<rparr>"
  let ?k = "\<lparr>text' = ''hi'', channelId = None, channelName = Some ''general'', chatId = Some ''c9'',
              userId = Some ''7''\<rparr>"
  have hi: "text' ?i \<noteq> [] \<and> channelId ?i = Some ''42'' \<and> ''42'' \<noteq> []" by simp
  have hk: "text' ?k \<noteq> [] \<and> \<not> truthy_str (channelId ?k) \<and> channelName ?k = Some ''general''
      \<and> ''general'' \<noteq> []"
    by simp
  note ei = C10_selector_priority [where w = ?W and s = fresh and i = ?i and v = "''42''",
      THEN conjunct1, THEN mp, OF hi]
  note ek = C10_selector_priority [where w = ?W and s = fresh and i = ?k and v = "''general''",
      THEN conjunct2, THEN conjunct1, THEN mp, OF hk]
  have c1: "sendMessage ?W fresh ?i
      = sendMessage ?W fresh
          \<lparr>text' = ''hi'', channelId = Some ''42'', channelName = None, chatId = None, userId = None\<rparr>"
    using ei [THEN conjunct2] by simp
  have c2: "ApiCurl (api_command ''POST'' ''https://cliq.zoho.com/api/v2/channels/42/messages''
                      (JStr ''tok-1'')
                      (''-d '' @ [CHR 0x27] @ ''{\"text\":\"hi\",\"sync_message\":true}'' @ [CHR 0x27]))
     \<in> set (log (snd (sendMessage ?W fresh ?i)))"
    using spec_post_message_request
        [OF override_token [of 200 "''{}''", THEN conjunct1]
            override_token [of 200 "''{}''", THEN conjunct2],
         where rest = "''channels/42/messages''" and msg = "''hi''"]
    by (simp add: ei [THEN conjunct1] override_request)
  have c3: "sendMessage ?W fresh ?k
      = sendMessage ?W fresh
          \<lparr>text' = ''hi'', channelId = None, channelName = Some ''general'', chatId = None,
             userId = None\<rparr>"
    using ek [THEN conjunct2] by simp
  from c1 c2 c3 show ?thesis by blast
qed

subsection \<open>The channel list\<close>











end
